theory Spec2Isabelle
  imports Main "HOL-Library.Monad_Syntax" "HOL-Library.Word"
begin

section \<open>Go values shared by the resource functions\<close>

text \<open>
  A Go \<open>error\<close> is modelled by its message; the nil error is \<open>None\<close> of
  \<open>error option\<close>. A Go pointer is an \<open>option\<close> (\<open>None\<close> is nil). A run that
  panics (nil dereference, failed type assertion) has no return value: functions
  that can panic return an \<open>option\<close> whose \<open>None\<close> is the panic, or the outcome
  \<open>Panic\<close> below. The \<open>DisableRetries\<close> flag that some operations set on the shared
  client only changes how the client retries a request before it answers; the model
  takes the client's final answer and leaves the flag out.
\<close>

type_synonym error = string

definition StatusNotFound :: nat where
  "StatusNotFound = 404"


section \<open>Resource data, remote calls and the event log\<close>

text \<open>
  Every remote client method is a function of the remote directory's state \<open>'s\<close>,
  returning its Go results and the next state, so that the theorems below hold for
  every behaviour of the remote service. An operation threads a \<open>tf\<close> value: the
  remote state, the log of lock, unlock and remote-call events in the order they
  happen, the identifier held by the resource data (\<open>d.Id()\<close>; the empty string
  once the resource is removed from state) and the attributes last written to state.
\<close>

datatype remote_call =
    AdministrativeUnits_Get
  | AdministrativeUnits_GetMember
  | AdministrativeUnits_AddMembers
  | AdministrativeUnits_RemoveMembers
  | DirectoryObjects_Get
  | Applications_Create
  | Applications_Get
  | Applications_Update
  | Applications_Delete
  | AssignmentSchedule_Get
  | AssignmentScheduleRequests_List
  | AssignmentScheduleRequests_Create
  | AssignmentScheduleRequests_Cancel
  | EligibilityScheduleRequests_List
  | EligibilityScheduleRequests_Create
  | EligibilityScheduleRequests_Cancel

datatype event =
    LockByName string string
  | UnlockByName string string
  | Remote remote_call

fun mutating :: "remote_call \<Rightarrow> bool" where
  "mutating AdministrativeUnits_AddMembers = True"
| "mutating AdministrativeUnits_RemoveMembers = True"
| "mutating Applications_Create = True"
| "mutating Applications_Update = True"
| "mutating Applications_Delete = True"
| "mutating AssignmentScheduleRequests_Create = True"
| "mutating AssignmentScheduleRequests_Cancel = True"
| "mutating EligibilityScheduleRequests_Create = True"
| "mutating EligibilityScheduleRequests_Cancel = True"
| "mutating _ = False"

fun is_lock_event :: "event \<Rightarrow> bool" where
  "is_lock_event (Remote _) = False"
| "is_lock_event _ = True"

record ('s, 'm) tf =
  remote :: 's
  events :: "event list"
  rd_Id :: string
  rd_State :: "'m option"

text \<open>The value an operation returns: nil, an error, the import-as-exists diagnostic
  of \<open>tf.ImportAsExistsDiag\<close>, or no return at all (a panic).\<close>

datatype outcome =
    ReturnNil
  | Error error
  | ImportAsExists string string
  | Panic

definition invoke ::
  "remote_call \<Rightarrow> ('s \<Rightarrow> 'a \<times> 's) \<Rightarrow> ('s, 'm) tf \<Rightarrow> 'a \<times> ('s, 'm) tf" where
  "invoke c f t =
     (case f (remote t) of
        (a, s') \<Rightarrow> (a, t\<lparr>remote := s', events := events t @ [Remote c]\<rparr>))"

definition log_event :: "event \<Rightarrow> ('s, 'm) tf \<Rightarrow> ('s, 'm) tf" where
  "log_event e t = t\<lparr>events := events t @ [e]\<rparr>"

definition lock_events :: "('s, 'm) tf \<Rightarrow> event list" where
  "lock_events t = filter is_lock_event (events t)"

definition SetId :: "string \<Rightarrow> ('s, 'm) tf \<Rightarrow> ('s, 'm) tf" where
  "SetId newId t = t\<lparr>rd_Id := newId\<rparr>"

text \<open>
  Modelled from the spec: \<open>metadata.MarkAsGone\<close> of the typed SDK wrapper, which is
  not among the listed sources. Section 6 of the specification describes it as the
  "mark as gone" signal distinct from an error, by which the caller drops the
  resource from tracked state: the identifier is cleared and nil is returned, as
  \<open>d.SetId("")\<close> followed by \<open>return nil\<close> does in the untyped resources.
\<close>

definition MarkAsGone :: "('s, 'm) tf \<Rightarrow> outcome \<times> ('s, 'm) tf" where
  "MarkAsGone t = (ReturnNil, SetId [] t)"

text \<open>
  Modelled from the spec: \<open>metadata.Encode\<close> of the typed SDK wrapper, which is not
  among the listed sources; it writes the model to the tracked state.
\<close>

definition Encode :: "'m \<Rightarrow> ('s, 'm) tf \<Rightarrow> outcome \<times> ('s, 'm) tf" where
  "Encode model t = (ReturnNil, t\<lparr>rd_State := Some model\<rparr>)"

definition gone :: "outcome \<times> ('s, 'm) tf \<Rightarrow> bool" where
  "gone r = (fst r = ReturnNil \<and> rd_Id (snd r) = [])"

definition is_error :: "outcome \<Rightarrow> bool" where
  "is_error r = (case r of Error _ \<Rightarrow> True | _ \<Rightarrow> False)"

definition quoted :: "string \<Rightarrow> string" where
  "quoted s = [CHR 0x27] @ s @ [CHR 0x27]"

section \<open>identitygovernance: privileged access group schedules\<close>

text \<open>
  The msgraph structs, with the fields the resources use. A pointer field is an
  \<open>option\<close>. A \<open>time.Time\<close> is represented by its RFC 3339 text, so that
  \<open>Format(time.RFC3339)\<close> is the identity. The assignment and the eligibility
  schedule request structs have the same fields and share one record, as do their
  clients.
\<close>

type_synonym Time = string

record msgraph_TicketInfo =
  TicketNumber :: "string option"
  TicketSystem :: "string option"

record msgraph_ExpirationPattern =
  Duration :: "string option"
  EndDateTime :: "Time option"
  Type :: "string option"

record msgraph_RequestSchedule =
  StartDateTime :: "Time option"
  Expiration :: "msgraph_ExpirationPattern option"

record msgraph_ScheduleRequest =
  ID :: "string option"
  AccessId :: string
  PrincipalId :: "string option"
  GroupId :: "string option"
  Action :: string
  Justification :: "string option"
  ScheduleInfo :: "msgraph_RequestSchedule option"
  Status :: string
  TargetScheduleId :: "string option"
  TicketInfo :: "msgraph_TicketInfo option"

record msgraph_AssignmentSchedule =
  schedule_ScheduleInfo :: "msgraph_RequestSchedule option"
  schedule_AccessId :: string
  schedule_GroupId :: "string option"
  schedule_PrincipalId :: "string option"
  schedule_Status :: string

record odata_Query =
  Filter :: string
  OrderBy :: "string \<times> string"

record 's ScheduleRequestsClient =
  requests_List ::
    "odata_Query \<Rightarrow> 's \<Rightarrow> (msgraph_ScheduleRequest list option \<times> nat \<times> error option) \<times> 's"
  requests_Create ::
    "msgraph_ScheduleRequest \<Rightarrow> 's \<Rightarrow> (msgraph_ScheduleRequest option \<times> nat \<times> error option) \<times> 's"
  requests_Cancel :: "string \<Rightarrow> 's \<Rightarrow> (nat \<times> error option) \<times> 's"

record 's AssignmentScheduleClient =
  schedule_Get ::
    "string \<Rightarrow> 's \<Rightarrow> (msgraph_AssignmentSchedule option \<times> nat \<times> error option) \<times> 's"

text \<open>\<open>PrivilegedAccessGroupScheduleModel\<close> and \<open>PrivilegedAccessGroupScheduleRequestModel\<close>
  (the latter has \<open>TargetScheduleId\<close> in addition).\<close>

record PrivilegedAccessGroupScheduleModel =
  model_AssignmentType :: string
  model_Duration :: string
  model_ExpirationDate :: string
  model_GroupId :: string
  model_Justification :: string
  model_PermanentAssignment :: bool
  model_PrincipalId :: string
  model_StartDate :: string
  model_Status :: string
  model_TargetScheduleId :: string
  model_TicketNumber :: string
  model_TicketSystem :: string

text \<open>\<open>parse.PrivilegedAccessGroupScheduleId\<close>: the text of \<open>id.ID()\<close> and the group.\<close>

record PrivilegedAccessGroupScheduleId =
  scheduleId_ID :: string
  scheduleId_GroupId :: string

text \<open>The msgraph status, action and expiration constants. A Go \<open>switch\<close> does not
  compile with duplicate constant cases, so the status constants are distinct.\<close>

definition StatusCanceled :: string where "StatusCanceled = ''Canceled''"
definition StatusDenied :: string where "StatusDenied = ''Denied''"
definition StatusFailed :: string where "StatusFailed = ''Failed''"
definition StatusGranted :: string where "StatusGranted = ''Granted''"
definition StatusPendingAdminDecision :: string where
  "StatusPendingAdminDecision = ''PendingAdminDecision''"
definition StatusPendingApproval :: string where
  "StatusPendingApproval = ''PendingApproval''"
definition StatusPendingProvisioning :: string where
  "StatusPendingProvisioning = ''PendingProvisioning''"
definition StatusPendingScheduledCreation :: string where
  "StatusPendingScheduledCreation = ''PendingScheduleCreation''"
definition StatusProvisioned :: string where "StatusProvisioned = ''Provisioned''"
definition StatusRevoked :: string where "StatusRevoked = ''Revoked''"
definition StatusScheduleCreated :: string where "StatusScheduleCreated = ''ScheduleCreated''"

definition PrivilegedAccessGroupActionAdminAssign :: string where
  "PrivilegedAccessGroupActionAdminAssign = ''adminAssign''"
definition PrivilegedAccessGroupActionAdminRemove :: string where
  "PrivilegedAccessGroupActionAdminRemove = ''adminRemove''"
definition ExpirationPatternTypeNoExpiration :: string where
  "ExpirationPatternTypeNoExpiration = ''noExpiration''"

text \<open>The three groups of statuses both \<open>Delete\<close> functions switch on (the
  requests still to cancel, the schedules to revoke, those already gone); \<open>Read\<close> of
  the eligibility request tests membership in the last.\<close>

definition cancelStatuses :: "string list" where
  "cancelStatuses =
     [StatusDenied, StatusFailed, StatusGranted, StatusPendingAdminDecision,
      StatusPendingApproval, StatusPendingProvisioning, StatusPendingScheduledCreation]"

definition revokeStatuses :: "string list" where
  "revokeStatuses = [StatusProvisioned, StatusScheduleCreated]"

definition goneStatuses :: "string list" where
  "goneStatuses = [StatusCanceled, StatusRevoked]"

definition emptyScheduleRequest :: msgraph_ScheduleRequest where
  "emptyScheduleRequest =
     \<lparr>ID = None, AccessId = [], PrincipalId = None, GroupId = None, Action = [],
      Justification = None, ScheduleInfo = None, Status = [], TargetScheduleId = None,
      TicketInfo = None\<rparr>"

subsection \<open>privileged_access_group_eligiblity_schedule_request.go\<close>

text \<open>
  The identifier of the eligibility schedule request is its request id; the parser
  \<open>parse.ParsePrivilegedAccessGroupEligibilityScheduleRequestID\<close> is a parameter, as is
  the result of \<open>metadata.Decode\<close>.

  \<open>Read\<close>, lines 98 to 171. \<open>len(*requests)\<close> dereferences the returned slice
  pointer, and the else branch dereferences, in this order, \<open>GroupId\<close>,
  \<open>Justification\<close>, \<open>ScheduleInfo\<close>, \<open>Expiration\<close>, \<open>Type\<close>, \<open>PrincipalId\<close>,
  \<open>StartDateTime\<close>, \<open>TargetScheduleId\<close>, \<open>TicketInfo\<close> and \<open>ID\<close> with no nil
  check: the \<open>do\<close> block is in the option monad, where \<open>None\<close> is the nil
  dereference. For a cancelled or revoked request \<open>MarkAsGone\<close> is called without
  returning, and the model is encoded afterwards.
\<close>

definition EligibilityScheduleRequest_Read ::
  "'s ScheduleRequestsClient \<Rightarrow> (string \<Rightarrow> error + string)
     \<Rightarrow> (error + PrivilegedAccessGroupScheduleModel)
     \<Rightarrow> ('s, PrivilegedAccessGroupScheduleModel) tf
     \<Rightarrow> outcome \<times> ('s, PrivilegedAccessGroupScheduleModel) tf" where
  "EligibilityScheduleRequest_Read client ParseID decode t =
     (case ParseID (rd_Id t) of
        Inl err \<Rightarrow> (Error err, t)
      | Inr rid \<Rightarrow>
     (case decode of
        Inl err \<Rightarrow> (Error (''decoding: '' @ err), t)
      | Inr model \<Rightarrow>
     (case invoke EligibilityScheduleRequests_List
             (requests_List client
                \<lparr>Filter = ''groupId eq '' @ quoted (model_GroupId model)
                            @ '' and principalId eq '' @ quoted (model_PrincipalId model),
                 OrderBy = (''createdDateTime'', ''desc'')\<rparr>) t of
        ((requests, _, err), t1) \<Rightarrow>
     (case err of
        Some e \<Rightarrow> (Error (''listing requests: '' @ e), t1)
      | None \<Rightarrow>
     (case requests of
        None \<Rightarrow> (Panic, t1)
      | Some [] \<Rightarrow> MarkAsGone t1
      | Some (request # _) \<Rightarrow>
          if Status request \<in> set goneStatuses
          then Encode model (snd (MarkAsGone t1))
          else
            (case do {
                    groupId \<leftarrow> GroupId request;
                    justification \<leftarrow> Justification request;
                    scheduleInfo \<leftarrow> ScheduleInfo request;
                    expiration \<leftarrow> Expiration scheduleInfo;
                    expirationType \<leftarrow> Type expiration;
                    principalId \<leftarrow> PrincipalId request;
                    startDateTime \<leftarrow> StartDateTime scheduleInfo;
                    targetScheduleId \<leftarrow> TargetScheduleId request;
                    ticketInfo \<leftarrow> TicketInfo request;
                    requestId \<leftarrow> ID request;
                    Some (model
                      \<lparr>model_AssignmentType := AccessId request,
                       model_GroupId := groupId,
                       model_Justification := justification,
                       model_PermanentAssignment :=
                         (expirationType = ExpirationPatternTypeNoExpiration),
                       model_PrincipalId := principalId,
                       model_StartDate := startDateTime,
                       model_Status := Status request,
                       model_TargetScheduleId := targetScheduleId,
                       model_ExpirationDate :=
                         (case EndDateTime expiration of
                            Some e \<Rightarrow> e | None \<Rightarrow> model_ExpirationDate model),
                       model_Duration :=
                         (case Duration expiration of
                            Some d \<Rightarrow> d | None \<Rightarrow> model_Duration model),
                       model_TicketNumber :=
                         (case TicketNumber ticketInfo of
                            Some n \<Rightarrow> n | None \<Rightarrow> model_TicketNumber model),
                       model_TicketSystem :=
                         (case TicketSystem ticketInfo of
                            Some n \<Rightarrow> n | None \<Rightarrow> model_TicketSystem model)\<rparr>,
                      requestId)
                  } of
               None \<Rightarrow> (Panic, t1)
             | Some (model', requestId) \<Rightarrow>
                 Encode model' (if requestId \<noteq> rid then SetId requestId t1 else t1)))))))"

definition cancelEligibilityRequest ::
  "'s ScheduleRequestsClient \<Rightarrow> string \<Rightarrow> ('s, 'm) tf \<Rightarrow> outcome \<times> ('s, 'm) tf" where
  "cancelEligibilityRequest client rid t =
     (case invoke EligibilityScheduleRequests_Cancel (requests_Cancel client rid) t of
        ((status, err), t1) \<Rightarrow>
     (case err of
        Some e \<Rightarrow>
          if status = StatusNotFound then MarkAsGone t1
          else (Error (''cancelling '' @ rid @ '': '' @ e), t1)
      | None \<Rightarrow> MarkAsGone t1))"

definition revokeEligibilityRequest ::
  "'s ScheduleRequestsClient \<Rightarrow> string \<Rightarrow> PrivilegedAccessGroupScheduleModel
     \<Rightarrow> ('s, 'm) tf \<Rightarrow> outcome \<times> ('s, 'm) tf" where
  "revokeEligibilityRequest client rid model t =
     (case invoke EligibilityScheduleRequests_Create
             (requests_Create client
                (emptyScheduleRequest
                   \<lparr>ID := Some rid,
                    AccessId := model_AssignmentType model,
                    PrincipalId := Some (model_PrincipalId model),
                    GroupId := Some (model_GroupId model),
                    Action := PrivilegedAccessGroupActionAdminRemove\<rparr>)) t of
        ((result, status, err), t1) \<Rightarrow>
     (case err of
        Some e \<Rightarrow>
          if status = StatusNotFound then MarkAsGone t1
          else (Error (''retrieving '' @ rid @ '': '' @ e), t1)
      | None \<Rightarrow>
          if result = None
          then (Error (''retrieving '' @ rid @ '': API error, result was nil''), t1)
          else MarkAsGone t1))"

text \<open>\<open>Delete\<close>, lines 173 to 217: the switch on the status kept in state, one
  case per status; the cases fall into the three groups above.\<close>

definition EligibilityScheduleRequest_Delete ::
  "'s ScheduleRequestsClient \<Rightarrow> (string \<Rightarrow> error + string)
     \<Rightarrow> (error + PrivilegedAccessGroupScheduleModel)
     \<Rightarrow> ('s, 'm) tf \<Rightarrow> outcome \<times> ('s, 'm) tf" where
  "EligibilityScheduleRequest_Delete client ParseID decode t =
     (case ParseID (rd_Id t) of
        Inl err \<Rightarrow> (Error err, t)
      | Inr rid \<Rightarrow>
     (case decode of
        Inl err \<Rightarrow> (Error (''decoding: '' @ err), t)
      | Inr model \<Rightarrow>
          if model_Status model \<in> set cancelStatuses
          then cancelEligibilityRequest client rid t
          else if model_Status model \<in> set revokeStatuses
          then revokeEligibilityRequest client rid model t
          else if model_Status model \<in> set goneStatuses
          then MarkAsGone t
          else (Error (''unknown status: '' @ model_Status model), t)))"

subsection \<open>privileged_access_group_assignment_schedule_resource.go\<close>

text \<open>
  \<open>Read\<close>, lines 100 to 192. A 404 of the schedule is not returned: the requests
  are listed next, and the resource is marked as gone only when there is no request
  either. With a request present the model is filled from it, every pointer read
  through \<open>pointer.From\<close> (the zero value for nil) or behind a nil check.
  Without a request and with the schedule found, the model is filled from the
  schedule; \<open>schedule.ScheduleInfo\<close> dereferences the schedule pointer.
  \<open>populateSchedule\<close> is the last part of the function, lines 173 to 187, which
  copies the schedule information into the model.
\<close>

definition pointer_From :: "string option \<Rightarrow> string" where
  "pointer_From p = (case p of Some v \<Rightarrow> v | None \<Rightarrow> [])"

definition populateSchedule ::
  "msgraph_RequestSchedule option \<Rightarrow> PrivilegedAccessGroupScheduleModel
     \<Rightarrow> PrivilegedAccessGroupScheduleModel" where
  "populateSchedule scheduleInfo model =
     (case scheduleInfo of
        None \<Rightarrow> model
      | Some info \<Rightarrow>
          (let model1 =
                 (case Expiration info of
                    None \<Rightarrow> model
                  | Some expiration \<Rightarrow>
                      model
                        \<lparr>model_Duration := pointer_From (Duration expiration),
                         model_ExpirationDate :=
                           (case EndDateTime expiration of
                              Some e \<Rightarrow> e | None \<Rightarrow> model_ExpirationDate model),
                         model_PermanentAssignment :=
                           (case Type expiration of
                              Some ty \<Rightarrow> ty = ExpirationPatternTypeNoExpiration
                            | None \<Rightarrow> model_PermanentAssignment model)\<rparr>)
           in (case StartDateTime info of
                 Some s \<Rightarrow> model1\<lparr>model_StartDate := s\<rparr>
               | None \<Rightarrow> model1)))"

definition AssignmentSchedule_Read ::
  "'s AssignmentScheduleClient \<Rightarrow> 's ScheduleRequestsClient
     \<Rightarrow> (string \<Rightarrow> error + PrivilegedAccessGroupScheduleId)
     \<Rightarrow> (error + PrivilegedAccessGroupScheduleModel)
     \<Rightarrow> ('s, PrivilegedAccessGroupScheduleModel) tf
     \<Rightarrow> outcome \<times> ('s, PrivilegedAccessGroupScheduleModel) tf" where
  "AssignmentSchedule_Read scheduleClient requestsClient ParseID decode t =
     (case ParseID (rd_Id t) of
        Inl err \<Rightarrow> (Error err, t)
      | Inr rid \<Rightarrow>
     (case decode of
        Inl err \<Rightarrow> (Error (''decoding: '' @ err), t)
      | Inr model \<Rightarrow>
     (case invoke AssignmentSchedule_Get (schedule_Get scheduleClient (scheduleId_ID rid)) t of
        ((schedule, scheduleStatus, err), t1) \<Rightarrow>
     if err \<noteq> None \<and> scheduleStatus \<noteq> StatusNotFound
     then (Error (''retrieving '' @ scheduleId_ID rid @ '': '' @ the err), t1)
     else
     (case invoke AssignmentScheduleRequests_List
             (requests_List requestsClient
                \<lparr>Filter = ''groupId eq '' @ quoted (scheduleId_GroupId rid)
                            @ '' and targetScheduleId eq '' @ quoted (scheduleId_ID rid),
                 OrderBy = (''createdDateTime'', ''desc'')\<rparr>) t1 of
        ((requests, _, err2), t2) \<Rightarrow>
     (case err2 of
        Some e \<Rightarrow> (Error (''listing requests: '' @ e), t2)
      | None \<Rightarrow>
          if (requests = None \<or> requests = Some []) \<and> scheduleStatus = StatusNotFound
          then MarkAsGone t2
          else
            (case (case requests of Some (r # _) \<Rightarrow> Some r | _ \<Rightarrow> None) of
               Some request \<Rightarrow>
                 (let model1 = model
                        \<lparr>model_AssignmentType := AccessId request,
                         model_GroupId := pointer_From (GroupId request),
                         model_Justification := pointer_From (Justification request),
                         model_PrincipalId := pointer_From (PrincipalId request),
                         model_Status := Status request\<rparr>;
                      model2 =
                        (case TicketInfo request of
                           Some ticketInfo \<Rightarrow> model1
                             \<lparr>model_TicketNumber := pointer_From (TicketNumber ticketInfo),
                              model_TicketSystem := pointer_From (TicketSystem ticketInfo)\<rparr>
                         | None \<Rightarrow> model1)
                  in Encode (populateSchedule (ScheduleInfo request) model2) t2)
             | None \<Rightarrow>
                 (case schedule of
                    None \<Rightarrow> (Panic, t2)
                  | Some sched \<Rightarrow>
                      Encode
                        (populateSchedule (schedule_ScheduleInfo sched)
                           (model
                              \<lparr>model_AssignmentType := schedule_AccessId sched,
                               model_GroupId := pointer_From (schedule_GroupId sched),
                               model_PrincipalId := pointer_From (schedule_PrincipalId sched),
                               model_Status := schedule_Status sched\<rparr>))
                        t2)))))))"

text \<open>
  \<open>Update\<close>, lines 194 to 242. The request is built from the whole decoded model;
  \<open>HasChange\<close> is not consulted. \<open>buildScheduleRequest\<close> is not among the listed
  sources and is a parameter.
\<close>

definition AssignmentSchedule_properties ::
  "PrivilegedAccessGroupScheduleModel \<Rightarrow> msgraph_RequestSchedule option
     \<Rightarrow> msgraph_ScheduleRequest" where
  "AssignmentSchedule_properties model schedule =
     (let properties = emptyScheduleRequest
            \<lparr>AccessId := model_AssignmentType model,
             PrincipalId := Some (model_PrincipalId model),
             GroupId := Some (model_GroupId model),
             Action := PrivilegedAccessGroupActionAdminAssign,
             Justification := Some (model_Justification model),
             ScheduleInfo := schedule\<rparr>
      in if model_TicketNumber model \<noteq> [] \<or> model_TicketSystem model \<noteq> []
         then properties
                \<lparr>TicketInfo := Some \<lparr>TicketNumber = Some (model_TicketNumber model),
                                      TicketSystem = Some (model_TicketSystem model)\<rparr>\<rparr>
         else properties)"

definition AssignmentSchedule_Update ::
  "'s ScheduleRequestsClient
     \<Rightarrow> (PrivilegedAccessGroupScheduleModel \<Rightarrow> error + msgraph_RequestSchedule option)
     \<Rightarrow> (error + PrivilegedAccessGroupScheduleModel)
     \<Rightarrow> ('s, 'm) tf \<Rightarrow> outcome \<times> ('s, 'm) tf" where
  "AssignmentSchedule_Update client buildScheduleRequest decode t =
     (case decode of
        Inl err \<Rightarrow> (Error (''decoding: '' @ err), t)
      | Inr model \<Rightarrow>
     (case buildScheduleRequest model of
        Inl err \<Rightarrow> (Error err, t)
      | Inr schedule \<Rightarrow>
     (case invoke AssignmentScheduleRequests_Create
             (requests_Create client (AssignmentSchedule_properties model schedule)) t of
        ((req, _, err), t1) \<Rightarrow>
     (case err of
        Some e \<Rightarrow> (Error (''Could not create assignment schedule request, '' @ e), t1)
      | None \<Rightarrow>
     (case req of
        None \<Rightarrow> (Panic, t1)
      | Some r \<Rightarrow>
          if ID r = None \<or> ID r = Some []
          then (Error ''ID returned for assignment schedule request is nil/empty'', t1)
          else if Status r = StatusFailed
          then (Error ''Assignment schedule request is in a failed state'', t1)
          else (ReturnNil, t1))))))"

definition cancelAssignmentRequest ::
  "'s ScheduleRequestsClient \<Rightarrow> PrivilegedAccessGroupScheduleId
     \<Rightarrow> ('s, 'm) tf \<Rightarrow> outcome \<times> ('s, 'm) tf" where
  "cancelAssignmentRequest client rid t =
     (case invoke AssignmentScheduleRequests_Cancel
             (requests_Cancel client (scheduleId_ID rid)) t of
        ((status, err), t1) \<Rightarrow>
     (case err of
        Some e \<Rightarrow>
          if status = StatusNotFound then MarkAsGone t1
          else (Error (''cancelling '' @ scheduleId_ID rid @ '': '' @ e), t1)
      | None \<Rightarrow> (ReturnNil, t1)))"

definition revokeAssignmentRequest ::
  "'s ScheduleRequestsClient \<Rightarrow> PrivilegedAccessGroupScheduleId
     \<Rightarrow> PrivilegedAccessGroupScheduleModel \<Rightarrow> ('s, 'm) tf \<Rightarrow> outcome \<times> ('s, 'm) tf" where
  "revokeAssignmentRequest client rid model t =
     (case invoke AssignmentScheduleRequests_Create
             (requests_Create client
                (emptyScheduleRequest
                   \<lparr>ID := Some (scheduleId_ID rid),
                    AccessId := model_AssignmentType model,
                    PrincipalId := Some (model_PrincipalId model),
                    GroupId := Some (model_GroupId model),
                    Action := PrivilegedAccessGroupActionAdminRemove\<rparr>)) t of
        ((result, status, err), t1) \<Rightarrow>
     (case err of
        Some e \<Rightarrow>
          if status = StatusNotFound then MarkAsGone t1
          else (Error (''retrieving '' @ scheduleId_ID rid @ '': '' @ e), t1)
      | None \<Rightarrow>
          if result = None
          then (Error (''retrieving '' @ scheduleId_ID rid @ '': API error, result was nil''), t1)
          else (ReturnNil, t1)))"

text \<open>\<open>Delete\<close>, lines 244 to 280.\<close>

definition AssignmentSchedule_Delete ::
  "'s ScheduleRequestsClient \<Rightarrow> (string \<Rightarrow> error + PrivilegedAccessGroupScheduleId)
     \<Rightarrow> (error + PrivilegedAccessGroupScheduleModel)
     \<Rightarrow> ('s, 'm) tf \<Rightarrow> outcome \<times> ('s, 'm) tf" where
  "AssignmentSchedule_Delete client ParseID decode t =
     (case ParseID (rd_Id t) of
        Inl err \<Rightarrow> (Error err, t)
      | Inr rid \<Rightarrow>
     (case decode of
        Inl err \<Rightarrow> (Error (''decoding: '' @ err), t)
      | Inr model \<Rightarrow>
          if model_Status model \<in> set cancelStatuses
          then cancelAssignmentRequest client rid t
          else if model_Status model \<in> set revokeStatuses
          then revokeAssignmentRequest client rid model t
          else if model_Status model \<in> set goneStatuses
          then MarkAsGone t
          else (Error (''unable to destroy due to unknown status: '' @ model_Status model), t)))"

section \<open>The eventual-consistency poller\<close>

text \<open>
  \<open>pluginsdk.StateChangeConf\<close> as the resources fill it in. \<open>Timeout\<close> and
  \<open>MinTimeout\<close> are in seconds. \<open>Refresh\<close> returns the Go triple (result, state,
  error) and the next world.
\<close>

record 'w StateChangeConf =
  Pending :: "string list"
  Target :: "string list"
  Timeout :: nat
  MinTimeout :: nat
  ContinuousTargetOccurence :: nat
  Refresh :: "'w \<Rightarrow> (string option \<times> string \<times> error option) \<times> 'w"

text \<open>
  Modelled from the spec: \<open>WaitForStateContext\<close>, the poller behind
  \<open>pluginsdk.StateChangeConf\<close>, which is not among the listed sources. Section 4.2
  of the specification: the probe is called repeatedly, with a minimum interval
  between calls, until (a) the target state has been observed for the required
  number of consecutive observations, (b) the probe returns an error, which is
  returned at once, or (c) the deadline expires, which is a timeout error. An
  observation of another state starts the count again. The deadline is counted in
  probe calls: with \<open>MinTimeout\<close> seconds between calls, \<open>Timeout div MinTimeout\<close>
  calls start before it.
\<close>

definition TimeoutError :: error where
  "TimeoutError = ''timeout while waiting for state to become target''"

text \<open>Modelled from the spec: the loop of section 4.2. The first argument is the
  number of probe calls left before the deadline, the third the number of consecutive
  target observations so far.\<close>

fun WaitForState_loop ::
  "nat \<Rightarrow> 'w StateChangeConf \<Rightarrow> nat \<Rightarrow> 'w \<Rightarrow> error option \<times> 'w" where
  "WaitForState_loop 0 conf targetOccurence w = (Some TimeoutError, w)"
| "WaitForState_loop (Suc n) conf targetOccurence w =
     (case Refresh conf w of
        ((res, currentState, err), w1) \<Rightarrow>
     (case err of
        Some e \<Rightarrow> (Some e, w1)
      | None \<Rightarrow>
          if currentState \<in> set (Target conf)
          then (if ContinuousTargetOccurence conf \<le> Suc targetOccurence
                then (None, w1)
                else WaitForState_loop n conf (Suc targetOccurence) w1)
          else WaitForState_loop n conf 0 w1))"

text \<open>Modelled from the spec: the number of probe calls that start before the
  deadline, given the minimum interval between calls (section 4.2).\<close>

definition probe_calls :: "'w StateChangeConf \<Rightarrow> nat" where
  "probe_calls conf =
     (if MinTimeout conf = 0 then Timeout conf else Timeout conf div MinTimeout conf)"

text \<open>Modelled from the spec: \<open>WaitForStateContext\<close> starts the loop of section
  4.2 with no target observation counted yet.\<close>

definition WaitForStateContext :: "'w StateChangeConf \<Rightarrow> 'w \<Rightarrow> error option \<times> 'w" where
  "WaitForStateContext conf w = WaitForState_loop (probe_calls conf) conf 0 w"

text \<open>
  Modelled from the spec: \<open>helpers.WaitForDeletion\<close>, which is not among the listed
  sources. Section 4.2 of the specification: wait-for-deletion-complete is the same
  primitive with the target state inverted. The callback returns \<open>(*bool, error)\<close>:
  whether the object still exists. A context without a deadline is an error, as in
  the resource's own wait for creation.
\<close>

definition WaitForDeletion ::
  "nat option \<Rightarrow> ('w \<Rightarrow> (bool option \<times> error option) \<times> 'w) \<Rightarrow> 'w \<Rightarrow> error option \<times> 'w" where
  "WaitForDeletion ctx f w =
     (case ctx of
        None \<Rightarrow> (Some ''context has no deadline'', w)
      | Some timeout \<Rightarrow>
          WaitForStateContext
            \<lparr>Pending = [''Waiting''],
             Target = [''Deleted''],
             Timeout = timeout,
             MinTimeout = 1,
             ContinuousTargetOccurence = 3,
             Refresh = (\<lambda>w0.
               case f w0 of
                 ((exists, err), w1) \<Rightarrow>
               (case err of
                  Some e \<Rightarrow> ((None, ''Error'', Some e), w1)
                | None \<Rightarrow>
               (case exists of
                  None \<Rightarrow> ((None, ''Error'', Some ''nil result''), w1)
                | Some True \<Rightarrow> ((Some ''stub'', ''Waiting'', None), w1)
                | Some False \<Rightarrow> ((Some ''stub'', ''Deleted'', None), w1))))\<rparr>
            w)"

section \<open>administrativeunits: administrative unit member resource\<close>

record msgraph_AdministrativeUnit =
  unit_ID :: "string option"

record msgraph_DirectoryObject =
  object_Id :: "string option"
  ODataId :: "string option"

record 's AdministrativeUnitsClient =
  units_Get ::
    "string \<Rightarrow> 's \<Rightarrow> (msgraph_AdministrativeUnit option \<times> nat \<times> error option) \<times> 's"
  units_GetMember ::
    "string \<Rightarrow> string \<Rightarrow> 's \<Rightarrow> (string option \<times> nat \<times> error option) \<times> 's"
  units_AddMembers ::
    "string \<Rightarrow> msgraph_DirectoryObject list \<Rightarrow> 's \<Rightarrow> (nat \<times> error option) \<times> 's"
  units_RemoveMembers :: "string \<Rightarrow> string list \<Rightarrow> 's \<Rightarrow> (nat \<times> error option) \<times> 's"
  units_Endpoint :: string

record 's DirectoryObjectsClient =
  objects_Get ::
    "string \<Rightarrow> 's \<Rightarrow> (msgraph_DirectoryObject option \<times> nat \<times> error option) \<times> 's"

text \<open>\<open>meta.(*clients.Client)\<close>, as far as this resource reads it.\<close>

record 's AdministrativeUnitsMeta =
  AdministrativeUnitsClient :: "'s AdministrativeUnitsClient"
  DirectoryObjectsClient :: "'s DirectoryObjectsClient"
  TenantID :: string

record AdministrativeUnitMemberId =
  AdministrativeUnitId :: string
  MemberId :: string

definition administrativeUnitResourceName :: string where
  "administrativeUnitResourceName = ''azuread_administrative_unit''"

type_synonym 's units_tf = "('s, string \<rightharpoonup> string) tf"

definition tf_Set :: "string \<Rightarrow> string \<Rightarrow> 's units_tf \<Rightarrow> 's units_tf" where
  "tf_Set k v t =
     t\<lparr>rd_State := Some ((case rd_State t of None \<Rightarrow> Map.empty | Some m \<Rightarrow> m)(k \<mapsto> v))\<rparr>"

text \<open>
  \<open>administrativeUnitMemberResourceRead\<close>, lines 180 to 201. The identifier parser
  \<open>parse.AdministrativeUnitMemberID\<close> and the text of an identifier, \<open>id.String()\<close>,
  are not among the listed sources and are parameters.
\<close>

definition administrativeUnitMemberResourceRead ::
  "'s AdministrativeUnitsMeta \<Rightarrow> (string \<Rightarrow> error + AdministrativeUnitMemberId)
     \<Rightarrow> 's units_tf \<Rightarrow> outcome \<times> 's units_tf" where
  "administrativeUnitMemberResourceRead meta ParseID t =
     (case ParseID (rd_Id t) of
        Inl err \<Rightarrow> (Error (''Parsing Administrative Unit Member ID: '' @ err), t)
      | Inr rid \<Rightarrow>
     (case invoke AdministrativeUnits_GetMember
             (units_GetMember (AdministrativeUnitsClient meta)
                (AdministrativeUnitId rid) (MemberId rid)) t of
        ((_, status, err), t1) \<Rightarrow>
     (case err of
        Some e \<Rightarrow>
          if status = StatusNotFound then (ReturnNil, SetId [] t1)
          else (Error (''Retrieving member for administrative unit: '' @ e), t1)
      | None \<Rightarrow>
          (ReturnNil, tf_Set ''member_object_id'' (MemberId rid)
                  (tf_Set ''administrative_unit_object_id'' (AdministrativeUnitId rid) t1)))))"

text \<open>The \<open>Refresh\<close> closure and the configuration of the wait for the membership
  to reflect, lines 154 to 170.\<close>

definition memberRefresh ::
  "'s AdministrativeUnitsClient \<Rightarrow> AdministrativeUnitMemberId \<Rightarrow> ('s, 'm) tf
     \<Rightarrow> (string option \<times> string \<times> error option) \<times> ('s, 'm) tf" where
  "memberRefresh client rid t =
     (case invoke AdministrativeUnits_GetMember
             (units_GetMember client (AdministrativeUnitId rid) (MemberId rid)) t of
        ((_, status, err), t1) \<Rightarrow>
     (case err of
        Some e \<Rightarrow>
          if status = StatusNotFound then ((Some ''stub'', ''Waiting'', None), t1)
          else ((None, ''Error'', Some ''retrieving member''), t1)
      | None \<Rightarrow> ((Some ''stub'', ''Done'', None), t1)))"

definition memberStateChangeConf ::
  "'s AdministrativeUnitsClient \<Rightarrow> AdministrativeUnitMemberId \<Rightarrow> nat
     \<Rightarrow> ('s, 'm) tf StateChangeConf" where
  "memberStateChangeConf client rid timeout =
     \<lparr>Pending = [''Waiting''],
      Target = [''Done''],
      Timeout = timeout,
      MinTimeout = 1,
      ContinuousTargetOccurence = 3,
      Refresh = memberRefresh client rid\<rparr>"

text \<open>
  \<open>administrativeUnitMemberResourceCreate\<close>, lines 106 to 178. The context is its
  deadline: \<open>None\<close> when it has none, else the seconds left. The deferred
  \<open>tf.UnlockByName\<close> runs when the function returns, on every path and also when it
  panics; the part of the function after the \<open>defer\<close> statement is the \<open>_locked\<close>
  definition, and the unlock event is logged after it, whatever it returns.
\<close>

definition administrativeUnitMemberResourceCreate_locked ::
  "'s AdministrativeUnitsMeta \<Rightarrow> nat option \<Rightarrow> AdministrativeUnitMemberId
     \<Rightarrow> (AdministrativeUnitMemberId \<Rightarrow> string)
     \<Rightarrow> (string \<Rightarrow> error + AdministrativeUnitMemberId)
     \<Rightarrow> 's units_tf \<Rightarrow> outcome \<times> 's units_tf" where
  "administrativeUnitMemberResourceCreate_locked meta ctx rid String ParseID t =
     (let client = AdministrativeUnitsClient meta in
      case invoke AdministrativeUnits_Get (units_Get client (AdministrativeUnitId rid)) t of
        ((administrativeUnit, status, err), t1) \<Rightarrow>
     (case err of
        Some e \<Rightarrow>
          if status = StatusNotFound
          then (Error ''Administrative unit with object ID was not found'', t1)
          else (Error (''Retrieving administrative unit with object ID: '' @ e), t1)
      | None \<Rightarrow>
     (case invoke AdministrativeUnits_GetMember
             (units_GetMember client (AdministrativeUnitId rid) (MemberId rid)) t1 of
        ((_, status2, err2), t2) \<Rightarrow>
     (case err2 of
        None \<Rightarrow> (ImportAsExists ''azuread_administrative_unit_member'' (String rid), t2)
      | Some e2 \<Rightarrow>
     if status2 \<noteq> StatusNotFound
     then (Error (''Checking for existing membership: '' @ e2), t2)
     else
     (case invoke DirectoryObjects_Get
             (objects_Get (DirectoryObjectsClient meta) (MemberId rid)) t2 of
        ((memberObject, _, err3), t3) \<Rightarrow>
     (case err3 of
        Some e3 \<Rightarrow> (Error (''Could not retrieve member principal object: '' @ e3), t3)
      | None \<Rightarrow>
     (case memberObject of
        None \<Rightarrow>
          (Error ''Could not retrieve member principal object: returned memberObject was nil'',
           t3)
      | Some object \<Rightarrow>
     (let members =
            [object\<lparr>ODataId := Some (units_Endpoint client @ ''/v1.0/'' @ TenantID meta
                                       @ ''/directoryObjects/'' @ MemberId rid)\<rparr>]
      in
      case (case administrativeUnit of None \<Rightarrow> None | Some u \<Rightarrow> unit_ID u) of
        None \<Rightarrow> (Panic, t3)
      | Some unitId \<Rightarrow>
     (case invoke AdministrativeUnits_AddMembers (units_AddMembers client unitId members) t3 of
        ((_, err4), t4) \<Rightarrow>
     (case err4 of
        Some e4 \<Rightarrow> (Error (''Adding member to administrative unit: '' @ e4), t4)
      | None \<Rightarrow>
     (case ctx of
        None \<Rightarrow>
          (Error ''Waiting for member to reflect for administrative unit: context has no deadline'',
           t4)
      | Some timeout \<Rightarrow>
     (case WaitForStateContext (memberStateChangeConf client rid timeout) t4 of
        (werr, t5) \<Rightarrow>
     (case werr of
        Some e5 \<Rightarrow>
          (Error (''Waiting for member to reflect for administrative unit: '' @ e5), t5)
      | None \<Rightarrow>
          administrativeUnitMemberResourceRead meta ParseID
            (SetId (String rid) t5))))))))))))))"

definition administrativeUnitMemberResourceCreate ::
  "'s AdministrativeUnitsMeta \<Rightarrow> nat option \<Rightarrow> string \<Rightarrow> string
     \<Rightarrow> (AdministrativeUnitMemberId \<Rightarrow> string)
     \<Rightarrow> (string \<Rightarrow> error + AdministrativeUnitMemberId)
     \<Rightarrow> 's units_tf \<Rightarrow> outcome \<times> 's units_tf" where
  "administrativeUnitMemberResourceCreate meta ctx administrative_unit_object_id
       member_object_id String ParseID t =
     (let rid = \<lparr>AdministrativeUnitId = administrative_unit_object_id,
                 MemberId = member_object_id\<rparr>;
          t0 = log_event (LockByName administrativeUnitResourceName (AdministrativeUnitId rid)) t
      in case administrativeUnitMemberResourceCreate_locked meta ctx rid String ParseID t0 of
           (r, t') \<Rightarrow>
             (r, log_event
                   (UnlockByName administrativeUnitResourceName (AdministrativeUnitId rid)) t'))"

text \<open>\<open>administrativeUnitMemberResourceDelete\<close>, lines 203 to 234. The status of
  \<open>RemoveMembers\<close> is discarded: every error of the call is returned.\<close>

definition memberExists ::
  "'s AdministrativeUnitsClient \<Rightarrow> AdministrativeUnitMemberId \<Rightarrow> ('s, 'm) tf
     \<Rightarrow> (bool option \<times> error option) \<times> ('s, 'm) tf" where
  "memberExists client rid t =
     (case invoke AdministrativeUnits_GetMember
             (units_GetMember client (AdministrativeUnitId rid) (MemberId rid)) t of
        ((_, status, err), t1) \<Rightarrow>
     (case err of
        Some e \<Rightarrow>
          if status = StatusNotFound then ((Some False, None), t1)
          else ((None, Some e), t1)
      | None \<Rightarrow> ((Some True, None), t1)))"

definition administrativeUnitMemberResourceDelete_locked ::
  "'s AdministrativeUnitsMeta \<Rightarrow> nat option \<Rightarrow> AdministrativeUnitMemberId
     \<Rightarrow> 's units_tf \<Rightarrow> outcome \<times> 's units_tf" where
  "administrativeUnitMemberResourceDelete_locked meta ctx rid t =
     (let client = AdministrativeUnitsClient meta in
      case invoke AdministrativeUnits_RemoveMembers
             (units_RemoveMembers client (AdministrativeUnitId rid) [MemberId rid]) t of
        ((_, err), t1) \<Rightarrow>
     (case err of
        Some e \<Rightarrow> (Error (''Removing member from administrative unit: '' @ e), t1)
      | None \<Rightarrow>
     (case WaitForDeletion ctx (memberExists client rid) t1 of
        (werr, t2) \<Rightarrow>
     (case werr of
        Some e2 \<Rightarrow>
          (Error (''Waiting for removal of member from administrative unit: '' @ e2), t2)
      | None \<Rightarrow> (ReturnNil, t2)))))"

definition administrativeUnitMemberResourceDelete ::
  "'s AdministrativeUnitsMeta \<Rightarrow> nat option
     \<Rightarrow> (string \<Rightarrow> error + AdministrativeUnitMemberId)
     \<Rightarrow> 's units_tf \<Rightarrow> outcome \<times> 's units_tf" where
  "administrativeUnitMemberResourceDelete meta ctx ParseID t =
     (case ParseID (rd_Id t) of
        Inl err \<Rightarrow> (Error (''Parsing Administrative Unit Member ID: '' @ err), t)
      | Inr rid \<Rightarrow>
          (let t0 = log_event
                      (LockByName administrativeUnitResourceName (AdministrativeUnitId rid)) t
           in case administrativeUnitMemberResourceDelete_locked meta ctx rid t0 of
                (r, t') \<Rightarrow>
                  (r, log_event
                        (UnlockByName administrativeUnitResourceName (AdministrativeUnitId rid))
                        t')))"

section \<open>applications: application registration resource\<close>

text \<open>
  \<open>ApplicationRegistrationModel\<close> and the msgraph structs it is written to. A Go
  \<open>int\<close> is a 64-bit word and an \<open>int32\<close> a 32-bit word; \<open>int32(x)\<close> keeps the
  low 32 bits (\<open>ucast\<close>) and \<open>int(y)\<close> extends the sign (\<open>scast\<close>).
  \<open>StringNullWhenEmpty\<close> is a string that is sent as JSON null when empty.
\<close>

record ApplicationRegistrationModel =
  model_ClientId :: string
  model_Description :: string
  model_DisabledByMicrosoft :: string
  model_DisplayName :: string
  model_GroupMembershipClaims :: "string list"
  model_HomepageUrl :: string
  model_ImplicitAccessTokenIssuanceEnabled :: bool
  model_ImplicitIdTokenIssuanceEnabled :: bool
  model_LogoutUrl :: string
  model_MarketingUrl :: string
  model_Notes :: string
  model_ObjectId :: string
  model_PrivacyStatementUrl :: string
  model_PublisherDomain :: string
  model_RequestedAccessTokenVersion :: "64 word"
  model_ServiceManagementReference :: string
  model_SignInAudience :: string
  model_SupportUrl :: string
  model_TermsOfServiceUrl :: string

record msgraph_ApplicationApi =
  RequestedAccessTokenVersion :: "32 word option"

record msgraph_InformationalUrl =
  MarketingUrl :: "string option"
  PrivacyStatementUrl :: "string option"
  SupportUrl :: "string option"
  TermsOfServiceUrl :: "string option"

record msgraph_ImplicitGrantSettings =
  EnableAccessTokenIssuance :: "bool option"
  EnableIdTokenIssuance :: "bool option"

record msgraph_ApplicationWeb =
  HomePageUrl :: "string option"
  LogoutUrl :: "string option"
  ImplicitGrantSettings :: "msgraph_ImplicitGrantSettings option"

record msgraph_Application =
  Id :: "string option"
  AppId :: "string option"
  Description :: "string option"
  DisplayName :: "string option"
  GroupMembershipClaims :: "string list option"
  Notes :: "string option"
  PublisherDomain :: "string option"
  ServiceManagementReference :: "string option"
  SignInAudience :: "string option"
  Api :: "msgraph_ApplicationApi option"
  Info :: "msgraph_InformationalUrl option"
  Web :: "msgraph_ApplicationWeb option"
  DisabledByMicrosoftStatus :: "string option"

record 's ApplicationsClient =
  applications_Create ::
    "msgraph_Application \<Rightarrow> 's \<Rightarrow> (msgraph_Application option \<times> nat \<times> error option) \<times> 's"
  applications_Get ::
    "string \<Rightarrow> 's \<Rightarrow> (msgraph_Application option \<times> nat \<times> error option) \<times> 's"
  applications_Update :: "msgraph_Application \<Rightarrow> 's \<Rightarrow> (nat \<times> error option) \<times> 's"
  applications_Delete :: "string \<Rightarrow> 's \<Rightarrow> (nat \<times> error option) \<times> 's"

definition applicationResourceName :: string where
  "applicationResourceName = ''azuread_application''"

definition emptyApplication :: msgraph_Application where
  "emptyApplication =
     \<lparr>Id = None, AppId = None, Description = None, DisplayName = None,
      GroupMembershipClaims = None, Notes = None, PublisherDomain = None,
      ServiceManagementReference = None, SignInAudience = None, Api = None, Info = None,
      Web = None, DisabledByMicrosoftStatus = None\<rparr>"

text \<open>\<open>tf.NullableString\<close> is not among the listed sources; it returns a pointer to
  the string as a \<open>StringNullWhenEmpty\<close>, never nil.\<close>

definition NullableString :: "string \<Rightarrow> string option" where
  "NullableString s = Some s"

type_synonym 's apps_tf = "('s, ApplicationRegistrationModel) tf"

text \<open>
  \<open>Create\<close>, lines 554 to 612. The remote create call is the first remote call:
  there is no existence probe before it and no wait after it. The identifier parser
  \<open>parse.ParseApplicationID\<close> and the text of \<open>parse.NewApplicationID(id)\<close> are
  parameters. \<open>result.ID()\<close> reads through the returned pointer.
\<close>

definition ApplicationRegistration_createProperties ::
  "ApplicationRegistrationModel \<Rightarrow> msgraph_Application" where
  "ApplicationRegistration_createProperties model =
     emptyApplication
       \<lparr>DisplayName := Some (model_DisplayName model),
        Description := NullableString (model_Description model),
        GroupMembershipClaims := Some (model_GroupMembershipClaims model),
        Notes := NullableString (model_Notes model),
        ServiceManagementReference := NullableString (model_ServiceManagementReference model),
        SignInAudience := Some (model_SignInAudience model),
        Api := Some \<lparr>RequestedAccessTokenVersion =
                        Some (ucast (model_RequestedAccessTokenVersion model))\<rparr>,
        Info := Some
          \<lparr>MarketingUrl = NullableString (model_MarketingUrl model),
           PrivacyStatementUrl = NullableString (model_PrivacyStatementUrl model),
           SupportUrl = NullableString (model_SupportUrl model),
           TermsOfServiceUrl = NullableString (model_TermsOfServiceUrl model)\<rparr>,
        Web := Some
          \<lparr>HomePageUrl = NullableString (model_HomepageUrl model),
           LogoutUrl = NullableString (model_LogoutUrl model),
           ImplicitGrantSettings = Some
             \<lparr>EnableAccessTokenIssuance = Some (model_ImplicitAccessTokenIssuanceEnabled model),
              EnableIdTokenIssuance = Some (model_ImplicitIdTokenIssuanceEnabled model)\<rparr>\<rparr>\<rparr>"

definition ApplicationRegistration_Create ::
  "'s ApplicationsClient \<Rightarrow> (string \<Rightarrow> string) \<Rightarrow> (error + ApplicationRegistrationModel)
     \<Rightarrow> 's apps_tf \<Rightarrow> outcome \<times> 's apps_tf" where
  "ApplicationRegistration_Create client NewApplicationID decode t =
     (case decode of
        Inl err \<Rightarrow> (Error (''decoding: '' @ err), t)
      | Inr model \<Rightarrow>
     (case invoke Applications_Create
             (applications_Create client (ApplicationRegistration_createProperties model)) t of
        ((result, _, err), t1) \<Rightarrow>
     (case err of
        Some e \<Rightarrow> (Error (''creating Application: '' @ e), t1)
      | None \<Rightarrow>
     (case result of
        None \<Rightarrow> (Panic, t1)
      | Some app \<Rightarrow>
          if pointer_From (Id app) = []
          then (Error ''creating Application: object ID returned for application is nil/empty'',
                t1)
          else (ReturnNil, SetId (NewApplicationID (pointer_From (Id app))) t1)))))"

text \<open>\<open>Read\<close>, lines 614 to 679.\<close>

definition ApplicationRegistration_Read ::
  "'s ApplicationsClient \<Rightarrow> (string \<Rightarrow> error + string)
     \<Rightarrow> 's apps_tf \<Rightarrow> outcome \<times> 's apps_tf" where
  "ApplicationRegistration_Read client ParseApplicationID t =
     (case ParseApplicationID (rd_Id t) of
        Inl err \<Rightarrow> (Error err, t)
      | Inr rid \<Rightarrow>
     (case invoke Applications_Get (applications_Get client rid) t of
        ((result, status, err), t1) \<Rightarrow>
     (case err of
        Some e \<Rightarrow>
          if status = StatusNotFound then MarkAsGone t1
          else (Error (''retrieving '' @ rid @ '': '' @ e), t1)
      | None \<Rightarrow>
     (case result of
        None \<Rightarrow> (Error (''retrieving '' @ rid @ '': result was nil''), t1)
      | Some app \<Rightarrow>
          (let state =
                 \<lparr>model_ClientId = pointer_From (AppId app),
                  model_Description = pointer_From (Description app),
                  model_DisabledByMicrosoft = [],
                  model_DisplayName = pointer_From (DisplayName app),
                  model_GroupMembershipClaims =
                    (case GroupMembershipClaims app of Some c \<Rightarrow> c | None \<Rightarrow> []),
                  model_HomepageUrl = [],
                  model_ImplicitAccessTokenIssuanceEnabled = False,
                  model_ImplicitIdTokenIssuanceEnabled = False,
                  model_LogoutUrl = [],
                  model_MarketingUrl = [],
                  model_Notes = pointer_From (Notes app),
                  model_ObjectId = pointer_From (Id app),
                  model_PrivacyStatementUrl = [],
                  model_PublisherDomain = pointer_From (PublisherDomain app),
                  model_RequestedAccessTokenVersion = 0,
                  model_ServiceManagementReference =
                    pointer_From (ServiceManagementReference app),
                  model_SignInAudience = pointer_From (SignInAudience app),
                  model_SupportUrl = [],
                  model_TermsOfServiceUrl = []\<rparr>;
               state =
                 (case Api app of
                    None \<Rightarrow> state
                  | Some api \<Rightarrow> state
                      \<lparr>model_RequestedAccessTokenVersion :=
                         (case RequestedAccessTokenVersion api of
                            Some v \<Rightarrow> scast v | None \<Rightarrow> 0)\<rparr>);
               state =
                 (case Info app of
                    None \<Rightarrow> state
                  | Some info \<Rightarrow> state
                      \<lparr>model_MarketingUrl := pointer_From (MarketingUrl info),
                       model_PrivacyStatementUrl := pointer_From (PrivacyStatementUrl info),
                       model_SupportUrl := pointer_From (SupportUrl info),
                       model_TermsOfServiceUrl := pointer_From (TermsOfServiceUrl info)\<rparr>);
               state =
                 (case Web app of
                    None \<Rightarrow> state
                  | Some web \<Rightarrow>
                      (let state1 = state
                             \<lparr>model_HomepageUrl := pointer_From (HomePageUrl web),
                              model_LogoutUrl := pointer_From (LogoutUrl web)\<rparr>
                       in case ImplicitGrantSettings web of
                            None \<Rightarrow> state1
                          | Some implicitGrant \<Rightarrow> state1
                              \<lparr>model_ImplicitAccessTokenIssuanceEnabled :=
                                 (case EnableAccessTokenIssuance implicitGrant of
                                    Some b \<Rightarrow> b | None \<Rightarrow> False),
                               model_ImplicitIdTokenIssuanceEnabled :=
                                 (case EnableIdTokenIssuance implicitGrant of
                                    Some b \<Rightarrow> b | None \<Rightarrow> False)\<rparr>));
               state =
                 (case DisabledByMicrosoftStatus app of
                    None \<Rightarrow> state
                  | Some v \<Rightarrow> state\<lparr>model_DisabledByMicrosoft := v\<rparr>)
           in Encode state t1)))))"

text \<open>
  \<open>Update\<close>, lines 681 to 789. The request carries the object id and, for each
  attribute, its field only when \<open>rd.HasChange\<close> holds for the attribute; the
  nested \<open>Info\<close>, \<open>Web\<close> and \<open>ImplicitGrantSettings\<close> structs are allocated when
  one of their attributes changed. \<open>HasChange\<close> is a parameter: the set of
  attribute names the caller flags as changed.
\<close>

definition ApplicationRegistration_updateProperties ::
  "string \<Rightarrow> (string \<Rightarrow> bool) \<Rightarrow> ApplicationRegistrationModel \<Rightarrow> msgraph_Application" where
  "ApplicationRegistration_updateProperties rid HasChange model =
     (let properties = emptyApplication\<lparr>Id := Some rid\<rparr>;
          properties =
            (if HasChange ''display_name''
             then properties\<lparr>DisplayName := Some (model_DisplayName model)\<rparr>
             else properties);
          properties =
            (if HasChange ''description''
             then properties\<lparr>Description := NullableString (model_Description model)\<rparr>
             else properties);
          properties =
            (if HasChange ''group_membership_claims''
             then properties\<lparr>GroupMembershipClaims := Some (model_GroupMembershipClaims model)\<rparr>
             else properties);
          properties =
            (if HasChange ''notes''
             then properties\<lparr>Notes := NullableString (model_Notes model)\<rparr>
             else properties);
          properties =
            (if HasChange ''requested_access_token_version''
             then properties
                    \<lparr>Api := Some \<lparr>RequestedAccessTokenVersion =
                                    Some (ucast (model_RequestedAccessTokenVersion model))\<rparr>\<rparr>
             else properties);
          properties =
            (if HasChange ''service_management_reference''
             then properties
                    \<lparr>ServiceManagementReference :=
                       NullableString (model_ServiceManagementReference model)\<rparr>
             else properties);
          properties =
            (if HasChange ''sign_in_audience''
             then properties\<lparr>SignInAudience := Some (model_SignInAudience model)\<rparr>
             else properties);
          properties =
            (if HasChange ''marketing_url'' \<or> HasChange ''privacy_statement_url''
                \<or> HasChange ''support_url'' \<or> HasChange ''terms_of_service_url''
             then properties
                    \<lparr>Info := Some
                       \<lparr>MarketingUrl =
                          (if HasChange ''marketing_url''
                           then NullableString (model_MarketingUrl model) else None),
                        PrivacyStatementUrl =
                          (if HasChange ''privacy_statement_url''
                           then NullableString (model_PrivacyStatementUrl model) else None),
                        SupportUrl =
                          (if HasChange ''support_url''
                           then NullableString (model_SupportUrl model) else None),
                        TermsOfServiceUrl =
                          (if HasChange ''terms_of_service_url''
                           then NullableString (model_TermsOfServiceUrl model) else None)\<rparr>\<rparr>
             else properties);
          properties =
            (if HasChange ''implicit_access_token_issuance_enabled'' \<or> HasChange ''homepage_url''
                \<or> HasChange ''implicit_id_token_issuance_enabled'' \<or> HasChange ''logout_url''
             then properties
                    \<lparr>Web := Some
                       \<lparr>HomePageUrl =
                          (if HasChange ''homepage_url''
                           then NullableString (model_HomepageUrl model) else None),
                        LogoutUrl =
                          (if HasChange ''logout_url''
                           then NullableString (model_LogoutUrl model) else None),
                        ImplicitGrantSettings =
                          (if HasChange ''implicit_access_token_issuance_enabled''
                              \<or> HasChange ''implicit_id_token_issuance_enabled''
                           then Some
                             \<lparr>EnableAccessTokenIssuance =
                                (if HasChange ''implicit_access_token_issuance_enabled''
                                 then Some (model_ImplicitAccessTokenIssuanceEnabled model)
                                 else None),
                              EnableIdTokenIssuance =
                                (if HasChange ''implicit_id_token_issuance_enabled''
                                 then Some (model_ImplicitIdTokenIssuanceEnabled model)
                                 else None)\<rparr>
                           else None)\<rparr>\<rparr>
             else properties)
      in properties)"

definition ApplicationRegistration_Update_locked ::
  "'s ApplicationsClient \<Rightarrow> string \<Rightarrow> (string \<Rightarrow> bool) \<Rightarrow> ApplicationRegistrationModel
     \<Rightarrow> 's apps_tf \<Rightarrow> outcome \<times> 's apps_tf" where
  "ApplicationRegistration_Update_locked client rid HasChange model t =
     (case invoke Applications_Update
             (applications_Update client
                (ApplicationRegistration_updateProperties rid HasChange model)) t of
        ((_, err), t1) \<Rightarrow>
     (case err of
        Some e \<Rightarrow> (Error (''updating '' @ rid @ '': '' @ e), t1)
      | None \<Rightarrow> (ReturnNil, t1)))"

definition ApplicationRegistration_Update ::
  "'s ApplicationsClient \<Rightarrow> (string \<Rightarrow> error + string) \<Rightarrow> (string \<Rightarrow> bool)
     \<Rightarrow> (error + ApplicationRegistrationModel)
     \<Rightarrow> 's apps_tf \<Rightarrow> outcome \<times> 's apps_tf" where
  "ApplicationRegistration_Update client ParseApplicationID HasChange decode t =
     (case ParseApplicationID (rd_Id t) of
        Inl err \<Rightarrow> (Error err, t)
      | Inr rid \<Rightarrow>
     (case decode of
        Inl err \<Rightarrow> (Error (''decoding: '' @ err), t)
      | Inr model \<Rightarrow>
          (let t0 = log_event (LockByName applicationResourceName rid) t
           in case ApplicationRegistration_Update_locked client rid HasChange model t0 of
                (r, t') \<Rightarrow> (r, log_event (UnlockByName applicationResourceName rid) t'))))"

text \<open>\<open>Delete\<close>, lines 791 to 826. The status of \<open>client.Delete\<close> is discarded:
  every error of the call is returned.\<close>

definition applicationExists ::
  "'s ApplicationsClient \<Rightarrow> string \<Rightarrow> ('s, 'm) tf
     \<Rightarrow> (bool option \<times> error option) \<times> ('s, 'm) tf" where
  "applicationExists client rid t =
     (case invoke Applications_Get (applications_Get client rid) t of
        ((_, status, err), t1) \<Rightarrow>
     (case err of
        Some e \<Rightarrow>
          if status = StatusNotFound then ((Some False, None), t1)
          else ((None, Some e), t1)
      | None \<Rightarrow> ((Some True, None), t1)))"

definition ApplicationRegistration_Delete ::
  "'s ApplicationsClient \<Rightarrow> nat option \<Rightarrow> (string \<Rightarrow> error + string)
     \<Rightarrow> 's apps_tf \<Rightarrow> outcome \<times> 's apps_tf" where
  "ApplicationRegistration_Delete client ctx ParseApplicationID t =
     (case ParseApplicationID (rd_Id t) of
        Inl err \<Rightarrow> (Error err, t)
      | Inr rid \<Rightarrow>
     (case invoke Applications_Delete (applications_Delete client rid) t of
        ((_, err), t1) \<Rightarrow>
     (case err of
        Some e \<Rightarrow> (Error (''deleting '' @ rid @ '': '' @ e), t1)
      | None \<Rightarrow>
     (case WaitForDeletion ctx (applicationExists client rid) t1 of
        (werr, t2) \<Rightarrow>
     (case werr of
        Some e2 \<Rightarrow> (Error (''waiting for deletion of '' @ rid @ '': '' @ e2), t2)
      | None \<Rightarrow> (ReturnNil, t2))))))"

section \<open>Reading a request payload\<close>

text \<open>
  The schema attributes a request payload carries: an attribute is carried when its
  field is set (a nil pointer is left out of the JSON body). These two functions are
  not part of the program; they name what "the request contains the attribute"
  means, for the comparison with the attributes flagged as changed.
\<close>

definition updatableAttributes :: "string list" where
  "updatableAttributes =
     [''display_name'', ''description'', ''group_membership_claims'', ''notes'',
      ''requested_access_token_version'', ''service_management_reference'',
      ''sign_in_audience'', ''marketing_url'', ''privacy_statement_url'', ''support_url'',
      ''terms_of_service_url'', ''homepage_url'', ''logout_url'',
      ''implicit_access_token_issuance_enabled'', ''implicit_id_token_issuance_enabled'']"

definition carries :: "msgraph_Application \<Rightarrow> string \<Rightarrow> bool" where
  "carries p a =
     (if a = ''display_name'' then DisplayName p \<noteq> None
      else if a = ''description'' then Description p \<noteq> None
      else if a = ''group_membership_claims'' then GroupMembershipClaims p \<noteq> None
      else if a = ''notes'' then Notes p \<noteq> None
      else if a = ''requested_access_token_version''
        then (case Api p of None \<Rightarrow> False
              | Some api \<Rightarrow> RequestedAccessTokenVersion api \<noteq> None)
      else if a = ''service_management_reference'' then ServiceManagementReference p \<noteq> None
      else if a = ''sign_in_audience'' then SignInAudience p \<noteq> None
      else if a = ''marketing_url''
        then (case Info p of None \<Rightarrow> False | Some i \<Rightarrow> MarketingUrl i \<noteq> None)
      else if a = ''privacy_statement_url''
        then (case Info p of None \<Rightarrow> False | Some i \<Rightarrow> PrivacyStatementUrl i \<noteq> None)
      else if a = ''support_url''
        then (case Info p of None \<Rightarrow> False | Some i \<Rightarrow> SupportUrl i \<noteq> None)
      else if a = ''terms_of_service_url''
        then (case Info p of None \<Rightarrow> False | Some i \<Rightarrow> TermsOfServiceUrl i \<noteq> None)
      else if a = ''homepage_url''
        then (case Web p of None \<Rightarrow> False | Some w \<Rightarrow> HomePageUrl w \<noteq> None)
      else if a = ''logout_url''
        then (case Web p of None \<Rightarrow> False | Some w \<Rightarrow> LogoutUrl w \<noteq> None)
      else if a = ''implicit_access_token_issuance_enabled''
        then (case Web p of None \<Rightarrow> False
              | Some w \<Rightarrow>
                  (case ImplicitGrantSettings w of None \<Rightarrow> False
                   | Some g \<Rightarrow> EnableAccessTokenIssuance g \<noteq> None))
      else if a = ''implicit_id_token_issuance_enabled''
        then (case Web p of None \<Rightarrow> False
              | Some w \<Rightarrow>
                  (case ImplicitGrantSettings w of None \<Rightarrow> False
                   | Some g \<Rightarrow> EnableIdTokenIssuance g \<noteq> None))
      else False)"

definition payloadAttributes :: "msgraph_Application \<Rightarrow> string list" where
  "payloadAttributes p = filter (carries p) updatableAttributes"

definition schedulePayloadAttributes :: "msgraph_ScheduleRequest \<Rightarrow> string list" where
  "schedulePayloadAttributes r =
     (if PrincipalId r \<noteq> None then [''principal_id''] else [])
     @ (if GroupId r \<noteq> None then [''group_id''] else [])
     @ (if Justification r \<noteq> None then [''justification''] else [])
     @ (if ScheduleInfo r \<noteq> None then [''start_date''] else [])
     @ (if TicketInfo r \<noteq> None then [''ticket_number'', ''ticket_system''] else [])"

section \<open>Counting consecutive observations of a scripted probe\<close>

text \<open>
  For the scripted administrative units service an answer of \<open>GetMember\<close> with a nil
  error is an observation of the member ("Done" for the wait after create). The
  number of consecutive such observations at the end of a list of answers, starting
  from a count \<open>c\<close>; it is used to state and prove the properties of the poller and
  is not part of the program.
\<close>

fun streak :: "nat \<Rightarrow> (nat \<times> error option) list \<Rightarrow> nat" where
  "streak c [] = c"
| "streak c (a # as) = streak (if snd a = None then Suc c else 0) as"

section \<open>Concrete remote services\<close>

text \<open>
  Remote services on which the operations are run: services whose state is \<open>unit\<close>
  and whose methods always give the same answer, services that record the payloads
  they receive, and a scripted administrative units service whose state is the list
  of answers \<open>GetMember\<close> will give, one per call.
\<close>

definition exampleTf :: "'s \<Rightarrow> string \<Rightarrow> ('s, 'm) tf" where
  "exampleTf s rid = \<lparr>remote = s, events = [], rd_Id = rid, rd_State = None\<rparr>"

definition exampleScheduleRequest :: msgraph_ScheduleRequest where
  "exampleScheduleRequest =
     \<lparr>ID = Some ''r1'', AccessId = ''member'', PrincipalId = Some ''p1'',
      GroupId = Some ''g1'', Action = PrivilegedAccessGroupActionAdminAssign,
      Justification = Some ''needed'',
      ScheduleInfo = Some
        \<lparr>StartDateTime = Some ''2024-01-01T00:00:00Z'',
         Expiration = Some \<lparr>Duration = None, EndDateTime = None,
                             Type = Some ExpirationPatternTypeNoExpiration\<rparr>\<rparr>,
      Status = StatusProvisioned, TargetScheduleId = Some ''g1_member_s1'',
      TicketInfo = None\<rparr>"

definition exampleScheduleModel :: PrivilegedAccessGroupScheduleModel where
  "exampleScheduleModel =
     \<lparr>model_AssignmentType = ''member'', model_Duration = [], model_ExpirationDate = [],
      model_GroupId = ''g1'', model_Justification = ''needed'',
      model_PermanentAssignment = True, model_PrincipalId = ''p1'',
      model_StartDate = ''2024-01-01T00:00:00Z'', model_Status = StatusProvisioned,
      model_TargetScheduleId = ''g1_member_s1'', model_TicketNumber = [],
      model_TicketSystem = []\<rparr>"

text \<open>A requests service that lists one provisioned request without ticket
  information and answers 404 to \<open>Create\<close> and \<open>Cancel\<close>.\<close>

definition notFoundRequestsClient :: "unit ScheduleRequestsClient" where
  "notFoundRequestsClient =
     \<lparr>requests_List = (\<lambda>q s. ((Some [exampleScheduleRequest], 200, None), s)),
      requests_Create = (\<lambda>r s. ((None, 404, Some ''not found''), s)),
      requests_Cancel = (\<lambda>i s. ((404, Some ''not found''), s))\<rparr>"

text \<open>A requests service that answers 404 to the revoke request (action
  \<open>adminRemove\<close>) only and accepts every other request.\<close>

definition revokeNotFoundRequestsClient :: "unit ScheduleRequestsClient" where
  "revokeNotFoundRequestsClient =
     \<lparr>requests_List = (\<lambda>q s. ((Some [exampleScheduleRequest], 200, None), s)),
      requests_Create =
        (\<lambda>r s. (if Action r = PrivilegedAccessGroupActionAdminRemove
                 then (None, 404, Some ''not found'')
                 else (Some r, 201, None), s)),
      requests_Cancel = (\<lambda>i s. ((404, Some ''not found''), s))\<rparr>"

text \<open>A model in state that differs from the listed request in its justification,
  principal and status.\<close>

definition staleScheduleModel :: PrivilegedAccessGroupScheduleModel where
  "staleScheduleModel =
     exampleScheduleModel
       \<lparr>model_Justification := ''old'', model_PrincipalId := ''p0'',
        model_Status := StatusGranted, model_StartDate := []\<rparr>"

text \<open>A requests service that answers by the filter of the query: it lists the
  request of group g1 and schedule g1_member_s1 for the query that names them, and
  nothing for any other query.\<close>

definition filteringRequestsClient :: "unit ScheduleRequestsClient" where
  "filteringRequestsClient =
     \<lparr>requests_List =
        (\<lambda>q s. (if Filter q = ''groupId eq '' @ quoted ''g1''
                              @ '' and targetScheduleId eq '' @ quoted ''g1_member_s1''
                 then (Some [exampleScheduleRequest], 200, None)
                 else (Some [], 200, None), s)),
      requests_Create = (\<lambda>r s. ((Some r, 201, None), s)),
      requests_Cancel = (\<lambda>i s. ((204, None), s))\<rparr>"

definition notFoundScheduleClient :: "unit AssignmentScheduleClient" where
  "notFoundScheduleClient =
     \<lparr>schedule_Get = (\<lambda>i s. ((None, 404, Some ''not found''), s))\<rparr>"

definition recordingRequestsClient :: "msgraph_ScheduleRequest list ScheduleRequestsClient" where
  "recordingRequestsClient =
     \<lparr>requests_List = (\<lambda>q s. ((Some [], 200, None), s)),
      requests_Create =
        (\<lambda>r s. ((Some (r\<lparr>ID := Some ''r2'', Status := StatusProvisioned\<rparr>), 201, None),
                 s @ [r])),
      requests_Cancel = (\<lambda>i s. ((204, None), s))\<rparr>"

definition exampleParseScheduleID :: "string \<Rightarrow> error + PrivilegedAccessGroupScheduleId" where
  "exampleParseScheduleID s =
     (if s = [] then Inl ''empty id''
      else Inr \<lparr>scheduleId_ID = s,
                scheduleId_GroupId = takeWhile (\<lambda>c. c \<noteq> CHR ''_'') s\<rparr>)"

definition exampleParseRequestID :: "string \<Rightarrow> error + string" where
  "exampleParseRequestID s = (if s = [] then Inl ''empty id'' else Inr s)"

definition exampleMemberIdString :: "AdministrativeUnitMemberId \<Rightarrow> string" where
  "exampleMemberIdString rid = AdministrativeUnitId rid @ ''/member/'' @ MemberId rid"

definition exampleParseMemberID :: "string \<Rightarrow> error + AdministrativeUnitMemberId" where
  "exampleParseMemberID s =
     (let unit = takeWhile (\<lambda>c. c \<noteq> CHR ''/'') s;
          rest = dropWhile (\<lambda>c. c \<noteq> CHR ''/'') s
      in if unit \<noteq> [] \<and> take 8 rest = ''/member/'' \<and> drop 8 rest \<noteq> []
         then Inr \<lparr>AdministrativeUnitId = unit, MemberId = drop 8 rest\<rparr>
         else Inl ''invalid administrative unit member id'')"

definition exampleParseApplicationID :: "string \<Rightarrow> error + string" where
  "exampleParseApplicationID s =
     (if take 14 s = ''/applications/'' \<and> drop 14 s \<noteq> [] then Inr (drop 14 s)
      else Inl ''invalid application id'')"

text \<open>An administrative units service on which the unit exists and every call about
  the member answers 404.\<close>

definition notFoundUnitsMeta :: "unit AdministrativeUnitsMeta" where
  "notFoundUnitsMeta =
     \<lparr>AdministrativeUnitsClient =
        \<lparr>units_Get = (\<lambda>i s. ((Some \<lparr>unit_ID = Some i\<rparr>, 200, None), s)),
         units_GetMember = (\<lambda>u m s. ((None, 404, Some ''not found''), s)),
         units_AddMembers = (\<lambda>u ms s. ((404, Some ''not found''), s)),
         units_RemoveMembers = (\<lambda>u ms s. ((404, Some ''not found''), s)),
         units_Endpoint = ''https://graph.microsoft.com''\<rparr>,
      DirectoryObjectsClient =
        \<lparr>objects_Get = (\<lambda>i s. ((Some \<lparr>object_Id = Some i, ODataId = None\<rparr>, 200, None), s))\<rparr>,
      TenantID = ''tenant''\<rparr>"

text \<open>
  The scripted administrative units service: the unit and the member's directory
  object exist, adding and removing members succeed, and \<open>GetMember\<close> gives the
  next scripted answer (status and error); with the script used up it gives a
  server error.
\<close>

definition present :: "nat \<times> error option" where
  "present = (200, None)"

definition absent :: "nat \<times> error option" where
  "absent = (404, Some ''not found'')"

definition scriptedGetMember ::
  "(nat \<times> error option) list
     \<Rightarrow> (string option \<times> nat \<times> error option) \<times> (nat \<times> error option) list" where
  "scriptedGetMember s =
     (case s of
        [] \<Rightarrow> ((None, 500, Some ''no answer''), [])
      | (status, err) # rest \<Rightarrow>
          ((if err = None then Some ''member'' else None, status, err), rest))"

definition scriptedUnitsMeta :: "(nat \<times> error option) list AdministrativeUnitsMeta" where
  "scriptedUnitsMeta =
     \<lparr>AdministrativeUnitsClient =
        \<lparr>units_Get = (\<lambda>i s. ((Some \<lparr>unit_ID = Some i\<rparr>, 200, None), s)),
         units_GetMember = (\<lambda>u m s. scriptedGetMember s),
         units_AddMembers = (\<lambda>u ms s. ((204, None), s)),
         units_RemoveMembers = (\<lambda>u ms s. ((204, None), s)),
         units_Endpoint = ''https://graph.microsoft.com''\<rparr>,
      DirectoryObjectsClient =
        \<lparr>objects_Get = (\<lambda>i s. ((Some \<lparr>object_Id = Some i, ODataId = None\<rparr>, 200, None), s))\<rparr>,
      TenantID = ''tenant''\<rparr>"

definition exampleMemberId :: AdministrativeUnitMemberId where
  "exampleMemberId = \<lparr>AdministrativeUnitId = ''au1'', MemberId = ''m1''\<rparr>"

definition exampleApplicationModel :: ApplicationRegistrationModel where
  "exampleApplicationModel =
     \<lparr>model_ClientId = [], model_Description = ''an application'',
      model_DisabledByMicrosoft = [], model_DisplayName = ''app'',
      model_GroupMembershipClaims = [], model_HomepageUrl = [],
      model_ImplicitAccessTokenIssuanceEnabled = False,
      model_ImplicitIdTokenIssuanceEnabled = False, model_LogoutUrl = [],
      model_MarketingUrl = [], model_Notes = [], model_ObjectId = [],
      model_PrivacyStatementUrl = [], model_PublisherDomain = [],
      model_RequestedAccessTokenVersion = 2, model_ServiceManagementReference = [],
      model_SignInAudience = ''AzureADMyOrg'', model_SupportUrl = [],
      model_TermsOfServiceUrl = []\<rparr>"

text \<open>An applications service that records the payloads of \<open>Create\<close> and
  \<open>Update\<close>, on which an application is found until it is deleted.\<close>

record applicationsState =
  payloads :: "msgraph_Application list"
  deleted :: bool

definition recordingApplicationsClient :: "applicationsState ApplicationsClient" where
  "recordingApplicationsClient =
     \<lparr>applications_Create =
        (\<lambda>p s. ((Some (p\<lparr>Id := Some ''a1''\<rparr>), 201, None), s\<lparr>payloads := payloads s @ [p]\<rparr>)),
      applications_Get =
        (\<lambda>i s. (if deleted s then (None, 404, Some ''not found'')
                 else (Some (emptyApplication\<lparr>Id := Some i\<rparr>), 200, None), s)),
      applications_Update = (\<lambda>p s. ((204, None), s\<lparr>payloads := payloads s @ [p]\<rparr>)),
      applications_Delete =
        (\<lambda>i s. (if deleted s then (404, Some ''not found'') else (204, None),
                 s\<lparr>deleted := True\<rparr>))\<rparr>"

definition freshApplications :: applicationsState where
  "freshApplications = \<lparr>payloads = [], deleted = False\<rparr>"

definition deletedApplications :: applicationsState where
  "deletedApplications = \<lparr>payloads = [], deleted = True\<rparr>"

definition exampleHasChange :: "string \<Rightarrow> bool" where
  "exampleHasChange a = (a \<in> set [''display_name'', ''logout_url''])"

text \<open>The probe sequence that flips before it settles.\<close>

definition flipScript :: "(nat \<times> error option) list" where
  "flipScript = [absent, present, absent, present, present, present]"
section \<open>migrations/application_resource.go: state upgrade v1 to v2\<close>

text \<open>
  The raw state is a \<open>map[string]interface{}\<close>. The values of \<open>interface{}\<close> that
  Terraform's JSON state can hold are modelled by \<open>rawval\<close>.
\<close>

datatype rawval =
    VNil
  | VString string
  | VBool bool
  | VNumber int
  | VList "rawval list"

text \<open>
  \<open>ResourceApplicationInstanceStateUpgradeV1\<close>. The two helpers it calls are not part
  of the listed sources and are parameters: \<open>ParseUUID\<close> (the error of
  \<open>uuid.ParseUUID\<close>, \<open>None\<close> when the string parses) and \<open>NewApplicationID\<close>
  (the text of \<open>parse.NewApplicationID(oldId).ID()\<close>). The type assertion
  \<open>rawState["id"].(string)\<close> has no \<open>ok\<close> result, so it panics when the key is
  missing or holds another type. The Go map is updated in place and returned; the
  model returns the updated map.
\<close>

definition ResourceApplicationInstanceStateUpgradeV1 ::
  "(string \<Rightarrow> error option) \<Rightarrow> (string \<Rightarrow> string) \<Rightarrow> (string \<rightharpoonup> rawval)
     \<Rightarrow> ((string \<rightharpoonup> rawval) \<times> error option) option" where
  "ResourceApplicationInstanceStateUpgradeV1 ParseUUID NewApplicationID rawState =
     (case rawState ''id'' of
        Some (VString oldId) \<Rightarrow>
          (case ParseUUID oldId of
             Some err \<Rightarrow> Some (rawState, Some (''parsing ID for azuread_application: '' @ err))
           | None \<Rightarrow> Some (rawState(''id'' \<mapsto> VString (NewApplicationID oldId)), None))
      | _ \<Rightarrow> None)"

text \<open>
  Concrete helpers used to run the upgrade on examples: a UUID check of the shape
  hashicorp/go-uuid applies (36 characters, dashes at 8, 13, 18 and 23, hexadecimal
  digits elsewhere) and the v2 identifier \<open>/applications/{id}\<close>.
\<close>

definition isHex :: "char \<Rightarrow> bool" where
  "isHex c = (c \<in> set ''0123456789abcdefABCDEF'')"

definition exampleParseUUID :: "string \<Rightarrow> error option" where
  "exampleParseUUID u =
     (if length u \<noteq> 36 then Some ''uuid string is wrong length''
      else if u ! 8 \<noteq> CHR ''-'' \<or> u ! 13 \<noteq> CHR ''-'' \<or> u ! 18 \<noteq> CHR ''-'' \<or> u ! 23 \<noteq> CHR ''-''
        then Some ''uuid is improperly formatted''
      else if list_all isHex (take 8 u @ take 4 (drop 9 u) @ take 4 (drop 14 u)
                                @ take 4 (drop 19 u) @ take 12 (drop 24 u))
        then None
      else Some ''encoding/hex: invalid byte'')"

definition exampleNewApplicationID :: "string \<Rightarrow> string" where
  "exampleNewApplicationID oldId = ''/applications/'' @ oldId"

definition exampleStateV1 :: "string \<rightharpoonup> rawval" where
  "exampleStateV1 =
     [''id'' \<mapsto> VString ''00000000-0000-0000-0000-000000000000'',
      ''display_name'' \<mapsto> VString ''app'']"


section \<open>Facts about the event log\<close>


lemma invoke_lock_events:
  "invoke c f t = (a, t1) \<Longrightarrow> lock_events t1 = lock_events t"
  by (auto simp: invoke_def lock_events_def split: prod.splits)

lemma lock_events_log_Lock [simp]:
  "lock_events (log_event (LockByName scope key) t) = lock_events t @ [LockByName scope key]"
  by (simp add: lock_events_def log_event_def)

lemma lock_events_log_Unlock [simp]:
  "lock_events (log_event (UnlockByName scope key) t)
     = lock_events t @ [UnlockByName scope key]"
  by (simp add: lock_events_def log_event_def)

lemma lock_events_SetId [simp]: "lock_events (SetId i t) = lock_events t"
  by (simp add: lock_events_def SetId_def)

lemma lock_events_tf_Set [simp]: "lock_events (tf_Set k v t) = lock_events t"
  by (simp add: lock_events_def tf_Set_def)

lemma events_log_event [simp]: "events (log_event e t) = events t @ [e]"
  by (simp add: log_event_def)

lemma remote_log_event [simp]: "remote (log_event e t) = remote t"
  by (simp add: log_event_def)

lemma rd_Id_log_event [simp]: "rd_Id (log_event e t) = rd_Id t"
  by (simp add: log_event_def)

lemma gone_MarkAsGone [simp]: "gone (MarkAsGone t)"
  by (simp add: gone_def MarkAsGone_def SetId_def)

lemma status_groups_disjoint:
  "s \<in> set cancelStatuses \<Longrightarrow> s \<notin> set revokeStatuses \<and> s \<notin> set goneStatuses"
  "s \<in> set revokeStatuses \<Longrightarrow> s \<notin> set cancelStatuses \<and> s \<notin> set goneStatuses"
  by (auto simp: cancelStatuses_def revokeStatuses_def goneStatuses_def
        StatusCanceled_def StatusDenied_def StatusFailed_def StatusGranted_def
        StatusPendingAdminDecision_def StatusPendingApproval_def
        StatusPendingProvisioning_def StatusPendingScheduledCreation_def
        StatusProvisioned_def StatusRevoked_def StatusScheduleCreated_def)

section \<open>Delete and a remote 404\<close>

lemma cancelAssignmentRequest_NotFound:
  assumes "requests_Cancel client (scheduleId_ID rid) (remote t) = ((StatusNotFound, Some e), s)"
  shows "gone (cancelAssignmentRequest client rid t)"
  using assms by (simp add: cancelAssignmentRequest_def invoke_def)

lemma revokeAssignmentRequest_NotFound:
  assumes "requests_Create client
             (emptyScheduleRequest
                \<lparr>ID := Some (scheduleId_ID rid), AccessId := model_AssignmentType model,
                 PrincipalId := Some (model_PrincipalId model),
                 GroupId := Some (model_GroupId model),
                 Action := PrivilegedAccessGroupActionAdminRemove\<rparr>) (remote t)
           = ((result, StatusNotFound, Some e), s)"
  shows "gone (revokeAssignmentRequest client rid model t)"
  using assms by (simp add: revokeAssignmentRequest_def invoke_def)

lemma cancelEligibilityRequest_NotFound:
  assumes "requests_Cancel client rid (remote t) = ((StatusNotFound, Some e), s)"
  shows "gone (cancelEligibilityRequest client rid t)"
  using assms by (simp add: cancelEligibilityRequest_def invoke_def)

lemma revokeEligibilityRequest_NotFound:
  assumes "requests_Create client
             (emptyScheduleRequest
                \<lparr>ID := Some rid, AccessId := model_AssignmentType model,
                 PrincipalId := Some (model_PrincipalId model),
                 GroupId := Some (model_GroupId model),
                 Action := PrivilegedAccessGroupActionAdminRemove\<rparr>) (remote t)
           = ((result, StatusNotFound, Some e), s)"
  shows "gone (revokeEligibilityRequest client rid model t)"
  using assms by (simp add: revokeEligibilityRequest_def invoke_def)

lemma administrativeUnitMemberResourceDelete_remote_error:
  assumes "ParseID (rd_Id t) = Inr rid"
    and "units_RemoveMembers (AdministrativeUnitsClient meta) (AdministrativeUnitId rid)
           [MemberId rid] (remote t) = ((status, Some e), s)"
  shows "is_error (fst (administrativeUnitMemberResourceDelete meta ctx ParseID t))
         \<and> rd_Id (snd (administrativeUnitMemberResourceDelete meta ctx ParseID t)) = rd_Id t"
  using assms
  by (simp add: administrativeUnitMemberResourceDelete_def Let_def is_error_def
        administrativeUnitMemberResourceDelete_locked_def invoke_def log_event_def)

lemma ApplicationRegistration_Delete_remote_error:
  assumes "ParseID (rd_Id t) = Inr rid"
    and "applications_Delete client rid (remote t) = ((status, Some e), s)"
  shows "is_error (fst (ApplicationRegistration_Delete client ctx ParseID t))
         \<and> rd_Id (snd (ApplicationRegistration_Delete client ctx ParseID t)) = rd_Id t"
  using assms
  by (simp add: ApplicationRegistration_Delete_def is_error_def invoke_def)

text \<open>
  C2, as stated, on the removal of an administrative unit member: the remote
  \<open>RemoveMembers\<close> call reports 404 for a member that is already absent, and Delete
  returns an error and leaves the identifier in state.
\<close>

theorem administrativeUnitMemberResourceDelete_NotFound_is_error:
  "fst (administrativeUnitMemberResourceDelete notFoundUnitsMeta (Some 10)
          exampleParseMemberID (exampleTf () ''au1/member/m1''))
     = Error ''Removing member from administrative unit: not found''
   \<and> rd_Id (snd (administrativeUnitMemberResourceDelete notFoundUnitsMeta (Some 10)
          exampleParseMemberID (exampleTf () ''au1/member/m1''))) = ''au1/member/m1''"
  by (simp add: administrativeUnitMemberResourceDelete_def
        administrativeUnitMemberResourceDelete_locked_def notFoundUnitsMeta_def
        exampleParseMemberID_def exampleTf_def invoke_def log_event_def Let_def)

text \<open>
  C2, amended: on the cancel and revoke paths of the privileged access group
  assignment schedule and eligibility schedule request, when the one remote call
  Delete makes (the cancel call, or the create call carrying the revoke request)
  reports 404, Delete returns success with the resource marked as gone. The removal of an
  administrative unit member and the deletion of an application registration return
  an error whenever the remote remove or delete call reports an error, whatever its
  status (404 included), and leave the identifier in state.
\<close>

theorem Delete_NotFound:
  "(ParseID1 (rd_Id t1) = Inr rid1 \<and> model_Status model1 \<in> set cancelStatuses
      \<and> requests_Cancel client1 (scheduleId_ID rid1) (remote t1) = ((StatusNotFound, Some e1), s1)
    \<longrightarrow> gone (AssignmentSchedule_Delete client1 ParseID1 (Inr model1) t1))
   \<and> (ParseID2 (rd_Id t2) = Inr rid2 \<and> model_Status model2 \<in> set revokeStatuses
      \<and> requests_Create client2
            (emptyScheduleRequest
               \<lparr>ID := Some (scheduleId_ID rid2), AccessId := model_AssignmentType model2,
                PrincipalId := Some (model_PrincipalId model2),
                GroupId := Some (model_GroupId model2),
                Action := PrivilegedAccessGroupActionAdminRemove\<rparr>) (remote t2)
          = ((result2, StatusNotFound, Some e2), s2)
    \<longrightarrow> gone (AssignmentSchedule_Delete client2 ParseID2 (Inr model2) t2))
   \<and> (ParseID3 (rd_Id t3) = Inr rid3 \<and> model_Status model3 \<in> set cancelStatuses
      \<and> requests_Cancel client3 rid3 (remote t3) = ((StatusNotFound, Some e3), s3)
    \<longrightarrow> gone (EligibilityScheduleRequest_Delete client3 ParseID3 (Inr model3) t3))
   \<and> (ParseID4 (rd_Id t4) = Inr rid4 \<and> model_Status model4 \<in> set revokeStatuses
      \<and> requests_Create client4
            (emptyScheduleRequest
               \<lparr>ID := Some rid4, AccessId := model_AssignmentType model4,
                PrincipalId := Some (model_PrincipalId model4),
                GroupId := Some (model_GroupId model4),
                Action := PrivilegedAccessGroupActionAdminRemove\<rparr>) (remote t4)
          = ((result4, StatusNotFound, Some e4), s4)
    \<longrightarrow> gone (EligibilityScheduleRequest_Delete client4 ParseID4 (Inr model4) t4))
   \<and> (ParseID5 (rd_Id t5) = Inr rid5
      \<and> units_RemoveMembers (AdministrativeUnitsClient meta5) (AdministrativeUnitId rid5)
           [MemberId rid5] (remote t5) = ((status5, Some e5), s5)
    \<longrightarrow> is_error (fst (administrativeUnitMemberResourceDelete meta5 ctx5 ParseID5 t5))
        \<and> rd_Id (snd (administrativeUnitMemberResourceDelete meta5 ctx5 ParseID5 t5))
            = rd_Id t5)
   \<and> (ParseID6 (rd_Id t6) = Inr rid6
      \<and> applications_Delete client6 rid6 (remote t6) = ((status6, Some e6), s6)
    \<longrightarrow> is_error (fst (ApplicationRegistration_Delete client6 ctx6 ParseID6 t6))
        \<and> rd_Id (snd (ApplicationRegistration_Delete client6 ctx6 ParseID6 t6)) = rd_Id t6)"
proof (intro conjI impI; (elim conjE)?)
  assume "ParseID1 (rd_Id t1) = Inr rid1" "model_Status model1 \<in> set cancelStatuses"
    "requests_Cancel client1 (scheduleId_ID rid1) (remote t1) = ((StatusNotFound, Some e1), s1)"
  then show "gone (AssignmentSchedule_Delete client1 ParseID1 (Inr model1) t1)"
    by (simp add: AssignmentSchedule_Delete_def cancelAssignmentRequest_NotFound)
next
  assume "ParseID2 (rd_Id t2) = Inr rid2" "model_Status model2 \<in> set revokeStatuses"
    "requests_Create client2
       (emptyScheduleRequest
          \<lparr>ID := Some (scheduleId_ID rid2), AccessId := model_AssignmentType model2,
           PrincipalId := Some (model_PrincipalId model2),
           GroupId := Some (model_GroupId model2),
           Action := PrivilegedAccessGroupActionAdminRemove\<rparr>) (remote t2)
     = ((result2, StatusNotFound, Some e2), s2)"
  then show "gone (AssignmentSchedule_Delete client2 ParseID2 (Inr model2) t2)"
    by (simp add: AssignmentSchedule_Delete_def revokeAssignmentRequest_NotFound
          status_groups_disjoint)
next
  assume "ParseID3 (rd_Id t3) = Inr rid3" "model_Status model3 \<in> set cancelStatuses"
    "requests_Cancel client3 rid3 (remote t3) = ((StatusNotFound, Some e3), s3)"
  then show "gone (EligibilityScheduleRequest_Delete client3 ParseID3 (Inr model3) t3)"
    by (simp add: EligibilityScheduleRequest_Delete_def cancelEligibilityRequest_NotFound)
next
  assume "ParseID4 (rd_Id t4) = Inr rid4" "model_Status model4 \<in> set revokeStatuses"
    "requests_Create client4
       (emptyScheduleRequest
          \<lparr>ID := Some rid4, AccessId := model_AssignmentType model4,
           PrincipalId := Some (model_PrincipalId model4),
           GroupId := Some (model_GroupId model4),
           Action := PrivilegedAccessGroupActionAdminRemove\<rparr>) (remote t4)
     = ((result4, StatusNotFound, Some e4), s4)"
  then show "gone (EligibilityScheduleRequest_Delete client4 ParseID4 (Inr model4) t4)"
    by (simp add: EligibilityScheduleRequest_Delete_def revokeEligibilityRequest_NotFound
          status_groups_disjoint)
next
  assume h: "ParseID5 (rd_Id t5) = Inr rid5"
    "units_RemoveMembers (AdministrativeUnitsClient meta5) (AdministrativeUnitId rid5)
       [MemberId rid5] (remote t5) = ((status5, Some e5), s5)"
  from administrativeUnitMemberResourceDelete_remote_error
         [where ParseID = ParseID5 and t = t5, OF h]
  show "is_error (fst (administrativeUnitMemberResourceDelete meta5 ctx5 ParseID5 t5))"
    and "rd_Id (snd (administrativeUnitMemberResourceDelete meta5 ctx5 ParseID5 t5)) = rd_Id t5"
    by simp_all
next
  assume h: "ParseID6 (rd_Id t6) = Inr rid6"
    "applications_Delete client6 rid6 (remote t6) = ((status6, Some e6), s6)"
  from ApplicationRegistration_Delete_remote_error
         [where ParseID = ParseID6 and t = t6, OF h]
  show "is_error (fst (ApplicationRegistration_Delete client6 ctx6 ParseID6 t6))"
    and "rd_Id (snd (ApplicationRegistration_Delete client6 ctx6 ParseID6 t6)) = rd_Id t6"
    by simp_all
qed

theorem Delete_NotFound_witness:
  "gone (AssignmentSchedule_Delete notFoundRequestsClient exampleParseScheduleID
           (Inr (exampleScheduleModel\<lparr>model_Status := StatusGranted\<rparr>))
           (exampleTf () ''g1_member_s1'' :: (unit, unit) tf))
   \<and> gone (AssignmentSchedule_Delete revokeNotFoundRequestsClient exampleParseScheduleID
           (Inr exampleScheduleModel) (exampleTf () ''g1_member_s1'' :: (unit, unit) tf))
   \<and> gone (EligibilityScheduleRequest_Delete notFoundRequestsClient exampleParseRequestID
           (Inr (exampleScheduleModel\<lparr>model_Status := StatusGranted\<rparr>))
           (exampleTf () ''r1'' :: (unit, unit) tf))
   \<and> gone (EligibilityScheduleRequest_Delete revokeNotFoundRequestsClient
           exampleParseRequestID (Inr exampleScheduleModel)
           (exampleTf () ''r1'' :: (unit, unit) tf))
   \<and> is_error (fst (administrativeUnitMemberResourceDelete notFoundUnitsMeta (Some 10)
           exampleParseMemberID (exampleTf () ''au1/member/m1'')))
   \<and> is_error (fst (ApplicationRegistration_Delete recordingApplicationsClient (Some 10)
           exampleParseApplicationID (exampleTf deletedApplications ''/applications/a1'')))"
  using Delete_NotFound
    [where ?ParseID1.0 = exampleParseScheduleID
       and ?t1.0 = "exampleTf () ''g1_member_s1'' :: (unit, unit) tf"
       and ?rid1.0 = "\<lparr>scheduleId_ID = ''g1_member_s1'', scheduleId_GroupId = ''g1''\<rparr>"
       and ?model1.0 = "exampleScheduleModel\<lparr>model_Status := StatusGranted\<rparr>"
       and ?client1.0 = notFoundRequestsClient and ?e1.0 = "''not found''" and ?s1.0 = "()"
       and ?ParseID2.0 = exampleParseScheduleID
       and ?t2.0 = "exampleTf () ''g1_member_s1'' :: (unit, unit) tf"
       and ?rid2.0 = "\<lparr>scheduleId_ID = ''g1_member_s1'', scheduleId_GroupId = ''g1''\<rparr>"
       and ?model2.0 = exampleScheduleModel and ?client2.0 = revokeNotFoundRequestsClient
       and ?result2.0 = None and ?e2.0 = "''not found''" and ?s2.0 = "()"
       and ?ParseID3.0 = exampleParseRequestID
       and ?t3.0 = "exampleTf () ''r1'' :: (unit, unit) tf" and ?rid3.0 = "''r1''"
       and ?model3.0 = "exampleScheduleModel\<lparr>model_Status := StatusGranted\<rparr>"
       and ?client3.0 = notFoundRequestsClient and ?e3.0 = "''not found''" and ?s3.0 = "()"
       and ?ParseID4.0 = exampleParseRequestID
       and ?t4.0 = "exampleTf () ''r1'' :: (unit, unit) tf" and ?rid4.0 = "''r1''"
       and ?model4.0 = exampleScheduleModel and ?client4.0 = revokeNotFoundRequestsClient
       and ?result4.0 = None and ?e4.0 = "''not found''" and ?s4.0 = "()"
       and ?ParseID5.0 = exampleParseMemberID and ?t5.0 = "exampleTf () ''au1/member/m1''"
       and ?rid5.0 = exampleMemberId and ?meta5.0 = notFoundUnitsMeta
       and ?status5.0 = 404 and ?e5.0 = "''not found''" and ?s5.0 = "()"
       and ?ctx5.0 = "Some 10"
       and ?ParseID6.0 = exampleParseApplicationID
       and ?t6.0 = "exampleTf deletedApplications ''/applications/a1''"
       and ?rid6.0 = "''a1''" and ?client6.0 = recordingApplicationsClient
       and ?status6.0 = 404 and ?e6.0 = "''not found''" and ?s6.0 = deletedApplications
       and ?ctx6.0 = "Some 10"]
  by (simp add: exampleTf_def exampleParseScheduleID_def exampleParseRequestID_def
        exampleParseMemberID_def exampleParseApplicationID_def exampleMemberId_def
        exampleScheduleModel_def notFoundRequestsClient_def notFoundUnitsMeta_def
        revokeNotFoundRequestsClient_def emptyScheduleRequest_def
        recordingApplicationsClient_def deletedApplications_def StatusNotFound_def
        cancelStatuses_def revokeStatuses_def StatusGranted_def StatusProvisioned_def
        StatusDenied_def StatusFailed_def)

section \<open>Read of the eligibility schedule request and nil pointers\<close>

text \<open>
  The sibling resource on the same answer of the remote service: \<open>Read\<close> of the
  assignment schedule reads every pointer through \<open>pointer.From\<close> or behind a nil
  check, and returns.
\<close>

lemma AssignmentSchedule_Read_nil_TicketInfo_returns:
  "fst (AssignmentSchedule_Read notFoundScheduleClient notFoundRequestsClient
          exampleParseScheduleID (Inr exampleScheduleModel) (exampleTf () ''g1_member_s1''))
     = ReturnNil"
  by (simp add: AssignmentSchedule_Read_def notFoundRequestsClient_def
        notFoundScheduleClient_def StatusNotFound_def Encode_def Let_def
        exampleParseScheduleID_def exampleTf_def invoke_def exampleScheduleRequest_def)

text \<open>
  C9: \<open>Read\<close> of the eligibility schedule request is not total. The remote List
  call returns one provisioned request whose \<open>TicketInfo\<close> is nil and whose other
  pointers are set; \<open>request.TicketInfo.TicketNumber\<close> dereferences the nil pointer
  and the operation panics, returning neither state nor an error.
\<close>

theorem EligibilityScheduleRequest_Read_nil_TicketInfo_panics:
  "TicketInfo exampleScheduleRequest = None
   \<and> fst (EligibilityScheduleRequest_Read notFoundRequestsClient exampleParseRequestID
          (Inr exampleScheduleModel) (exampleTf () ''r1'')) = Panic"
  by (simp add: EligibilityScheduleRequest_Read_def notFoundRequestsClient_def
        exampleParseRequestID_def exampleTf_def invoke_def exampleScheduleRequest_def
        goneStatuses_def StatusProvisioned_def StatusCanceled_def StatusRevoked_def)

section \<open>Read and a remote 404\<close>

lemma administrativeUnitMemberResourceRead_fetch_error:
  assumes "ParseID (rd_Id t) = Inr rid"
    and "units_GetMember (AdministrativeUnitsClient meta) (AdministrativeUnitId rid)
           (MemberId rid) (remote t) = ((m, status, Some e), s)"
  shows "if status = StatusNotFound
         then gone (administrativeUnitMemberResourceRead meta ParseID t)
         else is_error (fst (administrativeUnitMemberResourceRead meta ParseID t))"
  using assms
  by (simp add: administrativeUnitMemberResourceRead_def invoke_def gone_def SetId_def
        is_error_def)

lemma ApplicationRegistration_Read_fetch_error:
  assumes "ParseID (rd_Id t) = Inr rid"
    and "applications_Get client rid (remote t) = ((result, status, Some e), s)"
  shows "if status = StatusNotFound
         then gone (ApplicationRegistration_Read client ParseID t)
         else is_error (fst (ApplicationRegistration_Read client ParseID t))"
  using assms
  by (simp add: ApplicationRegistration_Read_def invoke_def is_error_def)

lemma AssignmentSchedule_Read_fetch_error:
  assumes "ParseID (rd_Id t) = Inr rid"
    and "schedule_Get scheduleClient (scheduleId_ID rid) (remote t)
           = ((schedule, status3, Some e), s)"
    and "requests_List requestsClient
           \<lparr>Filter = ''groupId eq '' @ quoted (scheduleId_GroupId rid)
                         @ '' and targetScheduleId eq '' @ quoted (scheduleId_ID rid),
              OrderBy = (''createdDateTime'', ''desc'')\<rparr> s
         = ((requests, status', err'), s')"
  shows "(status3 \<noteq> StatusNotFound \<longrightarrow> is_error (fst (AssignmentSchedule_Read scheduleClient requestsClient ParseID (Inr model) t)))
         \<and> (status3 = StatusNotFound \<and> err' \<noteq> None \<longrightarrow> is_error (fst (AssignmentSchedule_Read scheduleClient requestsClient ParseID (Inr model) t)))
         \<and> (status3 = StatusNotFound \<and> err' = None \<longrightarrow>
            (case requests of
               None \<Rightarrow> gone (AssignmentSchedule_Read scheduleClient requestsClient ParseID (Inr model) t)
             | Some [] \<Rightarrow> gone (AssignmentSchedule_Read scheduleClient requestsClient ParseID (Inr model) t)
             | Some (request # rest) \<Rightarrow>
                 fst (AssignmentSchedule_Read scheduleClient requestsClient ParseID (Inr model) t) = ReturnNil
                 \<and> rd_Id (snd (AssignmentSchedule_Read scheduleClient requestsClient ParseID (Inr model) t)) = rd_Id t
                 \<and> rd_State (snd (AssignmentSchedule_Read scheduleClient requestsClient ParseID (Inr model) t))
                     = Some (populateSchedule (ScheduleInfo request)
                         (case TicketInfo request of
                            None \<Rightarrow> model
                              \<lparr>model_AssignmentType := AccessId request,
                               model_GroupId := pointer_From (GroupId request),
                               model_Justification := pointer_From (Justification request),
                               model_PrincipalId := pointer_From (PrincipalId request),
                               model_Status := Status request\<rparr>
                          | Some ticketInfo \<Rightarrow> model
                              \<lparr>model_AssignmentType := AccessId request,
                               model_GroupId := pointer_From (GroupId request),
                               model_Justification := pointer_From (Justification request),
                               model_PrincipalId := pointer_From (PrincipalId request),
                               model_Status := Status request,
                               model_TicketNumber := pointer_From (TicketNumber ticketInfo),
                               model_TicketSystem :=
                                 pointer_From (TicketSystem ticketInfo)\<rparr>))))"
proof (cases "status3 = StatusNotFound")
  case False
  with assms(1,2) show ?thesis
    by (simp add: AssignmentSchedule_Read_def invoke_def is_error_def)
next
  case True
  show ?thesis
  proof (cases err')
    case (Some e')
    with True assms show ?thesis
      by (simp add: AssignmentSchedule_Read_def invoke_def is_error_def)
  next
    case None
    show ?thesis
    proof (cases requests)
      case none: None
      with True None assms show ?thesis
        by (simp add: AssignmentSchedule_Read_def invoke_def)
    next
      case (Some rs)
      show ?thesis
      proof (cases rs)
        case Nil
        with True None Some assms show ?thesis
          by (simp add: AssignmentSchedule_Read_def invoke_def)
      next
        case (Cons request rest)
        with True None Some assms show ?thesis
          by (cases "TicketInfo request")
             (simp_all add: AssignmentSchedule_Read_def invoke_def Encode_def Let_def)
      qed
    qed
  qed
qed

text \<open>
  C4, as stated, on \<open>Read\<close> of the privileged access group assignment schedule: the
  fetch of the schedule, the identity being read, reports 404, the listing by group
  and schedule still gives a request, and \<open>Read\<close> returns with the state replaced
  by the values of that request (justification, principal, status and start date are
  the request's, not those the stale model held); the identifier is kept and the
  resource is not marked as gone.
\<close>

theorem AssignmentSchedule_Read_NotFound_with_request_not_gone:
  "fst (schedule_Get notFoundScheduleClient ''g1_member_s1'' ())
     = (None, 404, Some ''not found'')
   \<and> fst (AssignmentSchedule_Read notFoundScheduleClient filteringRequestsClient
          exampleParseScheduleID (Inr staleScheduleModel) (exampleTf () ''g1_member_s1''))
      = ReturnNil
   \<and> rd_Id (snd (AssignmentSchedule_Read notFoundScheduleClient filteringRequestsClient
          exampleParseScheduleID (Inr staleScheduleModel) (exampleTf () ''g1_member_s1'')))
      = ''g1_member_s1''
   \<and> rd_State (snd (AssignmentSchedule_Read notFoundScheduleClient filteringRequestsClient
          exampleParseScheduleID (Inr staleScheduleModel) (exampleTf () ''g1_member_s1'')))
      = Some exampleScheduleModel
   \<and> model_Justification staleScheduleModel = ''old''
   \<and> model_Justification exampleScheduleModel = ''needed''"
  by (simp add: AssignmentSchedule_Read_def filteringRequestsClient_def
        notFoundScheduleClient_def StatusNotFound_def Encode_def Let_def
        exampleParseScheduleID_def exampleTf_def invoke_def exampleScheduleRequest_def
        staleScheduleModel_def exampleScheduleModel_def populateSchedule_def
        pointer_From_def)

text \<open>
  C4, amended: for \<open>Read\<close> of the administrative unit member and of the application
  registration, a remote fetch that reports 404 gives the mark-as-gone signal with no
  error, and every other failure of the fetch is returned as an error. For \<open>Read\<close>
  of the privileged access group assignment schedule, a failure of the schedule fetch
  other than 404 is returned as an error; after a 404 the requests of the group and
  schedule are listed (with the query \<open>Read\<close> sends, newest first), a failure of
  the listing is returned as an error, the resource is marked as gone only when no
  request is listed, and otherwise \<open>Read\<close> returns success, keeps the identifier
  and writes to state the model filled from the first listed request: its access id,
  group, justification, principal, status, ticket information when present, and
  schedule information.
\<close>

theorem Read_NotFound:
  "(ParseID1 (rd_Id t1) = Inr rid1
      \<and> units_GetMember (AdministrativeUnitsClient meta1) (AdministrativeUnitId rid1)
           (MemberId rid1) (remote t1) = ((m1, status1, Some e1), s1)
    \<longrightarrow> (if status1 = StatusNotFound
         then gone (administrativeUnitMemberResourceRead meta1 ParseID1 t1)
         else is_error (fst (administrativeUnitMemberResourceRead meta1 ParseID1 t1))))
   \<and> (ParseID2 (rd_Id t2) = Inr rid2
      \<and> applications_Get client2 rid2 (remote t2) = ((result2, status2, Some e2), s2)
    \<longrightarrow> (if status2 = StatusNotFound
         then gone (ApplicationRegistration_Read client2 ParseID2 t2)
         else is_error (fst (ApplicationRegistration_Read client2 ParseID2 t2))))
   \<and> (ParseID3 (rd_Id t3) = Inr rid3
      \<and> schedule_Get scheduleClient (scheduleId_ID rid3) (remote t3)
           = ((schedule, status3, Some e3), s3)
      \<and> requests_List requestsClient
           \<lparr>Filter = ''groupId eq '' @ quoted (scheduleId_GroupId rid3)
                         @ '' and targetScheduleId eq '' @ quoted (scheduleId_ID rid3),
              OrderBy = (''createdDateTime'', ''desc'')\<rparr> s3
         = ((requests, status', err'), s')
    \<longrightarrow> (status3 \<noteq> StatusNotFound \<longrightarrow> is_error (fst (AssignmentSchedule_Read scheduleClient requestsClient ParseID3 (Inr model) t3)))
         \<and> (status3 = StatusNotFound \<and> err' \<noteq> None \<longrightarrow> is_error (fst (AssignmentSchedule_Read scheduleClient requestsClient ParseID3 (Inr model) t3)))
         \<and> (status3 = StatusNotFound \<and> err' = None \<longrightarrow>
            (case requests of
               None \<Rightarrow> gone (AssignmentSchedule_Read scheduleClient requestsClient ParseID3 (Inr model) t3)
             | Some [] \<Rightarrow> gone (AssignmentSchedule_Read scheduleClient requestsClient ParseID3 (Inr model) t3)
             | Some (request # rest) \<Rightarrow>
                 fst (AssignmentSchedule_Read scheduleClient requestsClient ParseID3 (Inr model) t3) = ReturnNil
                 \<and> rd_Id (snd (AssignmentSchedule_Read scheduleClient requestsClient ParseID3 (Inr model) t3)) = rd_Id t3
                 \<and> rd_State (snd (AssignmentSchedule_Read scheduleClient requestsClient ParseID3 (Inr model) t3))
                     = Some (populateSchedule (ScheduleInfo request)
                         (case TicketInfo request of
                            None \<Rightarrow> model
                              \<lparr>model_AssignmentType := AccessId request,
                               model_GroupId := pointer_From (GroupId request),
                               model_Justification := pointer_From (Justification request),
                               model_PrincipalId := pointer_From (PrincipalId request),
                               model_Status := Status request\<rparr>
                          | Some ticketInfo \<Rightarrow> model
                              \<lparr>model_AssignmentType := AccessId request,
                               model_GroupId := pointer_From (GroupId request),
                               model_Justification := pointer_From (Justification request),
                               model_PrincipalId := pointer_From (PrincipalId request),
                               model_Status := Status request,
                               model_TicketNumber := pointer_From (TicketNumber ticketInfo),
                               model_TicketSystem :=
                                 pointer_From (TicketSystem ticketInfo)\<rparr>)))))"
proof (intro conjI)
  show "ParseID1 (rd_Id t1) = Inr rid1
      \<and> units_GetMember (AdministrativeUnitsClient meta1) (AdministrativeUnitId rid1)
           (MemberId rid1) (remote t1) = ((m1, status1, Some e1), s1)
    \<longrightarrow> (if status1 = StatusNotFound
         then gone (administrativeUnitMemberResourceRead meta1 ParseID1 t1)
         else is_error (fst (administrativeUnitMemberResourceRead meta1 ParseID1 t1)))"
    using administrativeUnitMemberResourceRead_fetch_error
            [where ParseID = ParseID1 and t = t1 and rid = rid1 and meta = meta1]
    by blast
next
  show "ParseID2 (rd_Id t2) = Inr rid2
      \<and> applications_Get client2 rid2 (remote t2) = ((result2, status2, Some e2), s2)
    \<longrightarrow> (if status2 = StatusNotFound
         then gone (ApplicationRegistration_Read client2 ParseID2 t2)
         else is_error (fst (ApplicationRegistration_Read client2 ParseID2 t2)))"
    using ApplicationRegistration_Read_fetch_error
            [where ParseID = ParseID2 and t = t2 and rid = rid2 and client = client2]
    by blast
next
  show "ParseID3 (rd_Id t3) = Inr rid3
      \<and> schedule_Get scheduleClient (scheduleId_ID rid3) (remote t3)
           = ((schedule, status3, Some e3), s3)
      \<and> requests_List requestsClient
           \<lparr>Filter = ''groupId eq '' @ quoted (scheduleId_GroupId rid3)
                         @ '' and targetScheduleId eq '' @ quoted (scheduleId_ID rid3),
              OrderBy = (''createdDateTime'', ''desc'')\<rparr> s3
         = ((requests, status', err'), s')
    \<longrightarrow> (status3 \<noteq> StatusNotFound \<longrightarrow> is_error (fst (AssignmentSchedule_Read scheduleClient requestsClient ParseID3 (Inr model) t3)))
         \<and> (status3 = StatusNotFound \<and> err' \<noteq> None \<longrightarrow> is_error (fst (AssignmentSchedule_Read scheduleClient requestsClient ParseID3 (Inr model) t3)))
         \<and> (status3 = StatusNotFound \<and> err' = None \<longrightarrow>
            (case requests of
               None \<Rightarrow> gone (AssignmentSchedule_Read scheduleClient requestsClient ParseID3 (Inr model) t3)
             | Some [] \<Rightarrow> gone (AssignmentSchedule_Read scheduleClient requestsClient ParseID3 (Inr model) t3)
             | Some (request # rest) \<Rightarrow>
                 fst (AssignmentSchedule_Read scheduleClient requestsClient ParseID3 (Inr model) t3) = ReturnNil
                 \<and> rd_Id (snd (AssignmentSchedule_Read scheduleClient requestsClient ParseID3 (Inr model) t3)) = rd_Id t3
                 \<and> rd_State (snd (AssignmentSchedule_Read scheduleClient requestsClient ParseID3 (Inr model) t3))
                     = Some (populateSchedule (ScheduleInfo request)
                         (case TicketInfo request of
                            None \<Rightarrow> model
                              \<lparr>model_AssignmentType := AccessId request,
                               model_GroupId := pointer_From (GroupId request),
                               model_Justification := pointer_From (Justification request),
                               model_PrincipalId := pointer_From (PrincipalId request),
                               model_Status := Status request\<rparr>
                          | Some ticketInfo \<Rightarrow> model
                              \<lparr>model_AssignmentType := AccessId request,
                               model_GroupId := pointer_From (GroupId request),
                               model_Justification := pointer_From (Justification request),
                               model_PrincipalId := pointer_From (PrincipalId request),
                               model_Status := Status request,
                               model_TicketNumber := pointer_From (TicketNumber ticketInfo),
                               model_TicketSystem :=
                                 pointer_From (TicketSystem ticketInfo)\<rparr>))))"
    using AssignmentSchedule_Read_fetch_error
            [where ParseID = ParseID3 and t = t3 and rid = rid3
               and scheduleClient = scheduleClient and requestsClient = requestsClient
               and s = s3 and model = model and e = e3 and schedule = schedule
               and ?status3.0 = status3 and requests = requests and status' = status'
               and err' = err' and s' = s']
    by blast
qed

theorem Read_NotFound_witness:
  "gone (administrativeUnitMemberResourceRead notFoundUnitsMeta exampleParseMemberID
           (exampleTf () ''au1/member/m1''))
   \<and> gone (ApplicationRegistration_Read recordingApplicationsClient exampleParseApplicationID
           (exampleTf deletedApplications ''/applications/a1''))
   \<and> fst (AssignmentSchedule_Read notFoundScheduleClient filteringRequestsClient
            exampleParseScheduleID (Inr staleScheduleModel)
            (exampleTf () ''g1_member_s1'')) = ReturnNil
   \<and> rd_Id (snd (AssignmentSchedule_Read notFoundScheduleClient filteringRequestsClient
            exampleParseScheduleID (Inr staleScheduleModel)
            (exampleTf () ''g1_member_s1''))) = ''g1_member_s1''
   \<and> rd_State (snd (AssignmentSchedule_Read notFoundScheduleClient filteringRequestsClient
            exampleParseScheduleID (Inr staleScheduleModel)
            (exampleTf () ''g1_member_s1''))) = Some exampleScheduleModel"
  using Read_NotFound
    [where ?ParseID1.0 = exampleParseMemberID and ?t1.0 = "exampleTf () ''au1/member/m1''"
       and ?rid1.0 = exampleMemberId and ?meta1.0 = notFoundUnitsMeta
       and ?m1.0 = None and ?status1.0 = 404 and ?e1.0 = "''not found''" and ?s1.0 = "()"
       and ?ParseID2.0 = exampleParseApplicationID
       and ?t2.0 = "exampleTf deletedApplications ''/applications/a1''"
       and ?rid2.0 = "''a1''" and ?client2.0 = recordingApplicationsClient
       and ?result2.0 = None and ?status2.0 = 404 and ?e2.0 = "''not found''"
       and ?s2.0 = deletedApplications
       and ?ParseID3.0 = exampleParseScheduleID
       and ?t3.0 = "exampleTf () ''g1_member_s1''"
       and ?rid3.0 = "\<lparr>scheduleId_ID = ''g1_member_s1'', scheduleId_GroupId = ''g1''\<rparr>"
       and scheduleClient = notFoundScheduleClient and requestsClient = filteringRequestsClient
       and schedule = None and ?status3.0 = 404 and ?e3.0 = "''not found''" and ?s3.0 = "()"
       and requests = "Some [exampleScheduleRequest]" and status' = 200 and err' = None
       and s' = "()" and model = staleScheduleModel]
  by (simp add: exampleTf_def exampleParseScheduleID_def
        exampleParseMemberID_def exampleParseApplicationID_def exampleMemberId_def
        filteringRequestsClient_def notFoundUnitsMeta_def notFoundScheduleClient_def
        recordingApplicationsClient_def deletedApplications_def StatusNotFound_def
        exampleScheduleRequest_def staleScheduleModel_def exampleScheduleModel_def
        populateSchedule_def pointer_From_def)

section \<open>Update and the attributes flagged as changed\<close>

lemma updateProperties_fields:
  "Id (ApplicationRegistration_updateProperties rid H m) = Some rid"
  "DisplayName (ApplicationRegistration_updateProperties rid H m)
     = (if H ''display_name'' then Some (model_DisplayName m) else None)"
  "Description (ApplicationRegistration_updateProperties rid H m)
     = (if H ''description'' then Some (model_Description m) else None)"
  "GroupMembershipClaims (ApplicationRegistration_updateProperties rid H m)
     = (if H ''group_membership_claims'' then Some (model_GroupMembershipClaims m) else None)"
  "Notes (ApplicationRegistration_updateProperties rid H m)
     = (if H ''notes'' then Some (model_Notes m) else None)"
  "ServiceManagementReference (ApplicationRegistration_updateProperties rid H m)
     = (if H ''service_management_reference''
        then Some (model_ServiceManagementReference m) else None)"
  "SignInAudience (ApplicationRegistration_updateProperties rid H m)
     = (if H ''sign_in_audience'' then Some (model_SignInAudience m) else None)"
  by (simp_all add: ApplicationRegistration_updateProperties_def Let_def emptyApplication_def
        NullableString_def if_distrib [where f = Id] if_distrib [where f = DisplayName]
        if_distrib [where f = Description] if_distrib [where f = GroupMembershipClaims]
        if_distrib [where f = Notes] if_distrib [where f = ServiceManagementReference]
        if_distrib [where f = SignInAudience] cong: if_cong)

lemma updateProperties_unset:
  "AppId (ApplicationRegistration_updateProperties rid H m) = None"
  "PublisherDomain (ApplicationRegistration_updateProperties rid H m) = None"
  "DisabledByMicrosoftStatus (ApplicationRegistration_updateProperties rid H m) = None"
  by (simp_all add: ApplicationRegistration_updateProperties_def Let_def emptyApplication_def
        if_distrib [where f = AppId] if_distrib [where f = PublisherDomain]
        if_distrib [where f = DisabledByMicrosoftStatus] cong: if_cong)

lemma updateProperties_Api:
  "Api (ApplicationRegistration_updateProperties rid H m)
     = (if H ''requested_access_token_version''
        then Some \<lparr>RequestedAccessTokenVersion =
                     Some (ucast (model_RequestedAccessTokenVersion m))\<rparr>
        else None)"
  by (simp add: ApplicationRegistration_updateProperties_def Let_def emptyApplication_def
        if_distrib [where f = Api] cong: if_cong)

lemma updateProperties_Info:
  "Info (ApplicationRegistration_updateProperties rid H m)
     = (if H ''marketing_url'' \<or> H ''privacy_statement_url'' \<or> H ''support_url''
           \<or> H ''terms_of_service_url''
        then Some
          \<lparr>MarketingUrl =
             (if H ''marketing_url'' then Some (model_MarketingUrl m) else None),
           PrivacyStatementUrl =
             (if H ''privacy_statement_url'' then Some (model_PrivacyStatementUrl m) else None),
           SupportUrl = (if H ''support_url'' then Some (model_SupportUrl m) else None),
           TermsOfServiceUrl =
             (if H ''terms_of_service_url'' then Some (model_TermsOfServiceUrl m) else None)\<rparr>
        else None)"
  by (simp add: ApplicationRegistration_updateProperties_def Let_def emptyApplication_def
        NullableString_def if_distrib [where f = Info] cong: if_cong)

lemma updateProperties_Web:
  "Web (ApplicationRegistration_updateProperties rid H m)
     = (if H ''implicit_access_token_issuance_enabled'' \<or> H ''homepage_url''
           \<or> H ''implicit_id_token_issuance_enabled'' \<or> H ''logout_url''
        then Some
          \<lparr>HomePageUrl = (if H ''homepage_url'' then Some (model_HomepageUrl m) else None),
           LogoutUrl = (if H ''logout_url'' then Some (model_LogoutUrl m) else None),
           ImplicitGrantSettings =
             (if H ''implicit_access_token_issuance_enabled''
                 \<or> H ''implicit_id_token_issuance_enabled''
              then Some
                \<lparr>EnableAccessTokenIssuance =
                   (if H ''implicit_access_token_issuance_enabled''
                    then Some (model_ImplicitAccessTokenIssuanceEnabled m) else None),
                 EnableIdTokenIssuance =
                   (if H ''implicit_id_token_issuance_enabled''
                    then Some (model_ImplicitIdTokenIssuanceEnabled m) else None)\<rparr>
              else None)\<rparr>
        else None)"
  by (simp add: ApplicationRegistration_updateProperties_def Let_def emptyApplication_def
        NullableString_def if_distrib [where f = Web] cong: if_cong)

lemma carries_each:
  "carries (ApplicationRegistration_updateProperties rid H m) ''display_name''
     = H ''display_name''"
  "carries (ApplicationRegistration_updateProperties rid H m) ''description''
     = H ''description''"
  "carries (ApplicationRegistration_updateProperties rid H m) ''group_membership_claims''
     = H ''group_membership_claims''"
  "carries (ApplicationRegistration_updateProperties rid H m) ''notes'' = H ''notes''"
  "carries (ApplicationRegistration_updateProperties rid H m) ''service_management_reference''
     = H ''service_management_reference''"
  "carries (ApplicationRegistration_updateProperties rid H m) ''sign_in_audience''
     = H ''sign_in_audience''"
  by (simp_all add: carries_def updateProperties_fields)

lemma carries_Api:
  "carries (ApplicationRegistration_updateProperties rid H m) ''requested_access_token_version''
     = H ''requested_access_token_version''"
  by (simp add: carries_def updateProperties_Api)

lemma carries_Info:
  "carries (ApplicationRegistration_updateProperties rid H m) ''marketing_url''
     = H ''marketing_url''"
  "carries (ApplicationRegistration_updateProperties rid H m) ''privacy_statement_url''
     = H ''privacy_statement_url''"
  "carries (ApplicationRegistration_updateProperties rid H m) ''support_url''
     = H ''support_url''"
  "carries (ApplicationRegistration_updateProperties rid H m) ''terms_of_service_url''
     = H ''terms_of_service_url''"
  by (simp_all add: carries_def updateProperties_Info)

lemma carries_Web:
  "carries (ApplicationRegistration_updateProperties rid H m) ''homepage_url''
     = H ''homepage_url''"
  "carries (ApplicationRegistration_updateProperties rid H m) ''logout_url''
     = H ''logout_url''"
  "carries (ApplicationRegistration_updateProperties rid H m)
       ''implicit_access_token_issuance_enabled''
     = H ''implicit_access_token_issuance_enabled''"
  "carries (ApplicationRegistration_updateProperties rid H m)
       ''implicit_id_token_issuance_enabled''
     = H ''implicit_id_token_issuance_enabled''"
  by (simp_all add: carries_def updateProperties_Web)

lemma carries_updateProperties:
  "\<forall>a\<in>set updatableAttributes.
     carries (ApplicationRegistration_updateProperties rid H m) a = H a"
  by (simp add: updatableAttributes_def carries_each carries_Api carries_Info carries_Web)

lemma payloadAttributes_updateProperties:
  "payloadAttributes (ApplicationRegistration_updateProperties rid H m)
     = filter H updatableAttributes"
  unfolding payloadAttributes_def
  by (rule filter_cong [OF refl]) (simp add: carries_updateProperties)

text \<open>
  C5, as stated, on \<open>Update\<close> of the privileged access group assignment schedule:
  the operation has no changed-attribute input at all, and the request it sends
  carries the principal, the group and the justification of the whole model.
\<close>

theorem AssignmentSchedule_Update_sends_whole_model:
  "remote (snd (AssignmentSchedule_Update recordingRequestsClient (\<lambda>m. Inr None)
                  (Inr exampleScheduleModel)
                  (exampleTf [] ''g1_member_s1'' :: (msgraph_ScheduleRequest list, unit) tf)))
     = [AssignmentSchedule_properties exampleScheduleModel None]
   \<and> schedulePayloadAttributes (AssignmentSchedule_properties exampleScheduleModel None)
     = [''principal_id'', ''group_id'', ''justification'']"
  by (simp add: AssignmentSchedule_Update_def recordingRequestsClient_def exampleTf_def
        invoke_def AssignmentSchedule_properties_def exampleScheduleModel_def
        emptyScheduleRequest_def schedulePayloadAttributes_def Let_def
        StatusProvisioned_def StatusFailed_def)

text \<open>
  C5, amended: for \<open>Update\<close> of the application registration and every set of
  attributes flagged as changed, the one remote update request carries the object id
  and exactly the updatable attributes flagged as changed; every other attribute is
  left out of the payload: the client id, the publisher domain and the
  disabled-by-Microsoft status are never set, and the nested \<open>Api\<close>, \<open>Info\<close> and
  \<open>Web\<close> structs are allocated only when one of their attributes is flagged.
  (\<open>Update\<close> of the privileged access group assignment schedule sends a new request
  built from the whole model.)
\<close>

theorem ApplicationRegistration_Update_payload:
  "ParseID (rd_Id t) = Inr rid \<longrightarrow>
     fst (ApplicationRegistration_Update recordingApplicationsClient ParseID HasChange
            (Inr model) t) = ReturnNil
     \<and> payloads (remote (snd (ApplicationRegistration_Update recordingApplicationsClient
                                 ParseID HasChange (Inr model) t)))
         = payloads (remote t) @ [ApplicationRegistration_updateProperties rid HasChange model]
     \<and> Id (ApplicationRegistration_updateProperties rid HasChange model) = Some rid
     \<and> payloadAttributes (ApplicationRegistration_updateProperties rid HasChange model)
         = filter HasChange updatableAttributes
     \<and> AppId (ApplicationRegistration_updateProperties rid HasChange model) = None
     \<and> PublisherDomain (ApplicationRegistration_updateProperties rid HasChange model) = None
     \<and> DisabledByMicrosoftStatus (ApplicationRegistration_updateProperties rid HasChange model)
         = None
     \<and> (Api (ApplicationRegistration_updateProperties rid HasChange model) = None)
         = (\<not> HasChange ''requested_access_token_version'')
     \<and> (Info (ApplicationRegistration_updateProperties rid HasChange model) = None)
         = (\<not> (HasChange ''marketing_url'' \<or> HasChange ''privacy_statement_url''
                \<or> HasChange ''support_url'' \<or> HasChange ''terms_of_service_url''))
     \<and> (Web (ApplicationRegistration_updateProperties rid HasChange model) = None)
         = (\<not> (HasChange ''implicit_access_token_issuance_enabled''
                \<or> HasChange ''homepage_url''
                \<or> HasChange ''implicit_id_token_issuance_enabled''
                \<or> HasChange ''logout_url''))"
proof (intro impI conjI)
  assume p: "ParseID (rd_Id t) = Inr rid"
  then show "fst (ApplicationRegistration_Update recordingApplicationsClient ParseID HasChange
            (Inr model) t) = ReturnNil"
    by (simp add: ApplicationRegistration_Update_def ApplicationRegistration_Update_locked_def
          recordingApplicationsClient_def invoke_def log_event_def Let_def)
  from p show "payloads (remote (snd (ApplicationRegistration_Update
                    recordingApplicationsClient ParseID HasChange (Inr model) t)))
         = payloads (remote t) @ [ApplicationRegistration_updateProperties rid HasChange model]"
    by (simp add: ApplicationRegistration_Update_def ApplicationRegistration_Update_locked_def
          recordingApplicationsClient_def invoke_def log_event_def Let_def)
  show "Id (ApplicationRegistration_updateProperties rid HasChange model) = Some rid"
    by (rule updateProperties_fields(1))
  show "payloadAttributes (ApplicationRegistration_updateProperties rid HasChange model)
         = filter HasChange updatableAttributes"
    by (rule payloadAttributes_updateProperties)
  show "AppId (ApplicationRegistration_updateProperties rid HasChange model) = None"
    "PublisherDomain (ApplicationRegistration_updateProperties rid HasChange model) = None"
    "DisabledByMicrosoftStatus (ApplicationRegistration_updateProperties rid HasChange model)
       = None"
    by (rule updateProperties_unset)+
  show "(Api (ApplicationRegistration_updateProperties rid HasChange model) = None)
         = (\<not> HasChange ''requested_access_token_version'')"
    by (simp add: updateProperties_Api)
  show "(Info (ApplicationRegistration_updateProperties rid HasChange model) = None)
         = (\<not> (HasChange ''marketing_url'' \<or> HasChange ''privacy_statement_url''
                \<or> HasChange ''support_url'' \<or> HasChange ''terms_of_service_url''))"
    by (simp add: updateProperties_Info)
  show "(Web (ApplicationRegistration_updateProperties rid HasChange model) = None)
         = (\<not> (HasChange ''implicit_access_token_issuance_enabled''
                \<or> HasChange ''homepage_url''
                \<or> HasChange ''implicit_id_token_issuance_enabled''
                \<or> HasChange ''logout_url''))"
    by (simp add: updateProperties_Web)
qed

theorem ApplicationRegistration_Update_payload_witness:
  "payloads (remote (snd (ApplicationRegistration_Update recordingApplicationsClient
                            exampleParseApplicationID exampleHasChange
                            (Inr exampleApplicationModel)
                            (exampleTf freshApplications ''/applications/a1''))))
     = [ApplicationRegistration_updateProperties ''a1'' exampleHasChange
          exampleApplicationModel]
   \<and> payloadAttributes (ApplicationRegistration_updateProperties ''a1'' exampleHasChange
                          exampleApplicationModel)
     = [''display_name'', ''logout_url'']
   \<and> AppId (ApplicationRegistration_updateProperties ''a1'' exampleHasChange
              exampleApplicationModel) = None
   \<and> PublisherDomain (ApplicationRegistration_updateProperties ''a1'' exampleHasChange
              exampleApplicationModel) = None
   \<and> Info (ApplicationRegistration_updateProperties ''a1'' exampleHasChange
              exampleApplicationModel) = None"
  using ApplicationRegistration_Update_payload
    [where ParseID = exampleParseApplicationID
       and t = "exampleTf freshApplications ''/applications/a1''"
       and rid = "''a1''" and HasChange = exampleHasChange
       and model = exampleApplicationModel]
  by (simp add: exampleParseApplicationID_def exampleTf_def freshApplications_def
        updatableAttributes_def exampleHasChange_def)

section \<open>The events of the poller\<close>

lemma lock_events_append_Remote:
  "events t' = events t @ replicate j (Remote c) \<Longrightarrow> lock_events t' = lock_events t"
  by (simp add: lock_events_def)

lemma WaitForState_loop_events:
  assumes R: "\<And>w a w1. Refresh conf w = (a, w1) \<Longrightarrow> events w1 = events w @ [Remote c]"
  shows "WaitForState_loop n conf k w = (r, w') \<Longrightarrow>
           \<exists>j. events w' = events w @ replicate j (Remote c) \<and> j \<le> n
               \<and> (r = None \<longrightarrow> ContinuousTargetOccurence conf \<le> j + k)"
proof (induction n arbitrary: k w)
  case 0
  then show ?case by auto
next
  case (Suc n)
  obtain res st err w1 where rf: "Refresh conf w = ((res, st, err), w1)"
    by (metis prod_cases3 surj_pair)
  from R [OF rf] have e1: "events w1 = events w @ [Remote c]" .
  show ?case
  proof (cases err)
    case (Some e)
    with Suc.prems rf have "w' = w1" "r = Some e" by auto
    with e1 show ?thesis by (intro exI [of _ 1]) simp
  next
    case None
    show ?thesis
    proof (cases "st \<in> set (Target conf)")
      case True
      show ?thesis
      proof (cases "ContinuousTargetOccurence conf \<le> Suc k")
        case True
        with \<open>st \<in> set (Target conf)\<close> None Suc.prems rf have "w' = w1" "r = None" by auto
        with e1 True show ?thesis by (intro exI [of _ 1]) simp
      next
        case False
        with \<open>st \<in> set (Target conf)\<close> None Suc.prems rf
        have "WaitForState_loop n conf (Suc k) w1 = (r, w')" by auto
        from Suc.IH [OF this] obtain j where
          "events w' = events w1 @ replicate j (Remote c)" "j \<le> n"
          "r = None \<longrightarrow> ContinuousTargetOccurence conf \<le> j + Suc k"
          by blast
        with e1 show ?thesis
          by (intro exI [of _ "Suc j"]) (auto simp: replicate_app_Cons_same)
      qed
    next
      case False
      with None Suc.prems rf have "WaitForState_loop n conf 0 w1 = (r, w')" by auto
      from Suc.IH [OF this] obtain j where
        "events w' = events w1 @ replicate j (Remote c)" "j \<le> n"
        "r = None \<longrightarrow> ContinuousTargetOccurence conf \<le> j + 0"
        by blast
      with e1 show ?thesis
        by (intro exI [of _ "Suc j"]) (auto simp: replicate_app_Cons_same)
    qed
  qed
qed

lemma memberRefresh_events:
  "memberRefresh client rid w = (a, w1) \<Longrightarrow>
     events w1 = events w @ [Remote AdministrativeUnits_GetMember]"
  by (auto simp: memberRefresh_def invoke_def split: prod.splits option.splits if_splits)

lemma WaitForStateContext_member_events:
  assumes "WaitForStateContext (memberStateChangeConf client rid timeout) t = (r, t')"
  shows "\<exists>j. events t' = events t @ replicate j (Remote AdministrativeUnits_GetMember)
             \<and> (r = None \<longrightarrow> 3 \<le> j)"
proof -
  have "\<And>w a w1. Refresh (memberStateChangeConf client rid timeout) w = (a, w1)
          \<Longrightarrow> events w1 = events w @ [Remote AdministrativeUnits_GetMember]"
    by (simp add: memberStateChangeConf_def memberRefresh_events)
  from WaitForState_loop_events [OF this] assms
  show ?thesis
    unfolding WaitForStateContext_def
    by (fastforce simp: memberStateChangeConf_def)
qed

lemma WaitForDeletion_events:
  assumes f: "\<And>w a w1. f w = (a, w1) \<Longrightarrow> events w1 = events w @ [Remote c]"
    and "WaitForDeletion ctx f t = (r, t')"
  shows "\<exists>j. events t' = events t @ replicate j (Remote c) \<and> (r = None \<longrightarrow> 3 \<le> j)"
proof (cases ctx)
  case None
  with assms(2) show ?thesis by (auto simp: WaitForDeletion_def intro: exI [of _ 0])
next
  case (Some timeout)
  let ?conf = "\<lparr>Pending = [''Waiting''], Target = [''Deleted''], Timeout = timeout,
      MinTimeout = 1, ContinuousTargetOccurence = 3,
      Refresh = (\<lambda>w0.
         case f w0 of
           ((exists, err), w1) \<Rightarrow>
         (case err of
            Some e \<Rightarrow> ((None, ''Error'', Some e), w1)
          | None \<Rightarrow>
         (case exists of
            None \<Rightarrow> ((None, ''Error'', Some ''nil result''), w1)
          | Some True \<Rightarrow> ((Some ''stub'', ''Waiting'', None), w1)
          | Some False \<Rightarrow> ((Some ''stub'', ''Deleted'', None), w1))))\<rparr>"
  have R: "\<And>w a w1. Refresh ?conf w = (a, w1) \<Longrightarrow> events w1 = events w @ [Remote c]"
    using f by (auto split: prod.splits option.splits bool.splits)
  from assms(2) Some have "WaitForState_loop (probe_calls ?conf) ?conf 0 t = (r, t')"
    by (simp add: WaitForDeletion_def WaitForStateContext_def)
  from WaitForState_loop_events [OF R this] show ?thesis by fastforce
qed

section \<open>Locks are released on every path\<close>

lemma lock_events_invoke [simp]: "lock_events (snd (invoke c f t)) = lock_events t"
  by (simp add: invoke_def lock_events_def split: prod.splits)

lemma lock_events_WaitForStateContext_member [simp]:
  "lock_events (snd (WaitForStateContext (memberStateChangeConf client rid timeout) t))
     = lock_events t"
proof -
  obtain r t' where w: "WaitForStateContext (memberStateChangeConf client rid timeout) t = (r, t')"
    by (cases "WaitForStateContext (memberStateChangeConf client rid timeout) t")
  from WaitForStateContext_member_events [OF w] show ?thesis
    using w by (auto simp: lock_events_def)
qed

lemma lock_events_WaitForDeletion:
  assumes "\<And>w a w1. f w = (a, w1) \<Longrightarrow> events w1 = events w @ [Remote c]"
  shows "lock_events (snd (WaitForDeletion ctx f t)) = lock_events t"
proof -
  obtain r t' where w: "WaitForDeletion ctx f t = (r, t')"
    by (cases "WaitForDeletion ctx f t")
  have "\<exists>j. events t' = events t @ replicate j (Remote c) \<and> (r = None \<longrightarrow> 3 \<le> j)"
    by (rule WaitForDeletion_events [where f = f and ctx = ctx]) (fact assms, fact w)
  then show ?thesis
    using w by (auto simp: lock_events_def)
qed

lemma memberExists_events:
  "memberExists client rid w = (a, w1) \<Longrightarrow>
     events w1 = events w @ [Remote AdministrativeUnits_GetMember]"
  by (auto simp: memberExists_def invoke_def split: prod.splits option.splits if_splits)


lemma lock_events_Read [simp]:
  "lock_events (snd (administrativeUnitMemberResourceRead meta ParseID t)) = lock_events t"
  by (simp add: administrativeUnitMemberResourceRead_def case_prod_beta
        split: sum.splits option.splits)

lemma lock_events_Create_locked:
  "lock_events (snd (administrativeUnitMemberResourceCreate_locked meta ctx rid String
                       ParseID t)) = lock_events t"
  by (simp add: administrativeUnitMemberResourceCreate_locked_def case_prod_beta Let_def
        split: option.splits)

lemma lock_events_Delete_locked:
  "lock_events (snd (administrativeUnitMemberResourceDelete_locked meta ctx rid t))
     = lock_events t"
  by (simp add: administrativeUnitMemberResourceDelete_locked_def case_prod_beta Let_def
        lock_events_WaitForDeletion [OF memberExists_events]
        split: option.splits)

lemma lock_events_Update_locked:
  "lock_events (snd (ApplicationRegistration_Update_locked client rid HasChange model t))
     = lock_events t"
  by (simp add: ApplicationRegistration_Update_locked_def case_prod_beta
        split: option.splits)

text \<open>
  C7: every mutating operation that takes a named lock logs exactly one
  \<open>LockByName\<close> and, after it, exactly one \<open>UnlockByName\<close> of the same scope and
  key, whatever the remote service answers and on whichever path the operation
  returns (error returns and panics included); an operation that returns before taking
  the lock logs neither. The operations that lock are the create and delete of the
  administrative unit member and the update of the application registration.
\<close>

theorem Lock_Unlock_once:
  "lock_events (snd (administrativeUnitMemberResourceCreate meta ctx unitId memberId String
                       ParseID t))
     = lock_events t @ [LockByName administrativeUnitResourceName unitId,
                        UnlockByName administrativeUnitResourceName unitId]
   \<and> lock_events (snd (administrativeUnitMemberResourceDelete meta ctx ParseID t))
     = lock_events t @
         (case ParseID (rd_Id t) of
            Inl err \<Rightarrow> []
          | Inr rid \<Rightarrow>
              [LockByName administrativeUnitResourceName (AdministrativeUnitId rid),
               UnlockByName administrativeUnitResourceName (AdministrativeUnitId rid)])
   \<and> lock_events (snd (ApplicationRegistration_Update client ParseApplicationID HasChange
                         decode u))
     = lock_events u @
         (case (ParseApplicationID (rd_Id u), decode) of
            (Inr rid, Inr model) \<Rightarrow>
              [LockByName applicationResourceName rid,
               UnlockByName applicationResourceName rid]
          | _ \<Rightarrow> [])"
proof (intro conjI)
  show "lock_events (snd (administrativeUnitMemberResourceCreate meta ctx unitId memberId
                            String ParseID t))
     = lock_events t @ [LockByName administrativeUnitResourceName unitId,
                        UnlockByName administrativeUnitResourceName unitId]"
    by (simp add: administrativeUnitMemberResourceCreate_def Let_def case_prod_beta
          lock_events_Create_locked)
next
  show "lock_events (snd (administrativeUnitMemberResourceDelete meta ctx ParseID t))
     = lock_events t @
         (case ParseID (rd_Id t) of
            Inl err \<Rightarrow> []
          | Inr rid \<Rightarrow>
              [LockByName administrativeUnitResourceName (AdministrativeUnitId rid),
               UnlockByName administrativeUnitResourceName (AdministrativeUnitId rid)])"
    by (simp add: administrativeUnitMemberResourceDelete_def Let_def case_prod_beta
          lock_events_Delete_locked split: sum.splits)
next
  show "lock_events (snd (ApplicationRegistration_Update client ParseApplicationID HasChange
                         decode u))
     = lock_events u @
         (case (ParseApplicationID (rd_Id u), decode) of
            (Inr rid, Inr model) \<Rightarrow>
              [LockByName applicationResourceName rid,
               UnlockByName applicationResourceName rid]
          | _ \<Rightarrow> [])"
    by (simp add: ApplicationRegistration_Update_def Let_def case_prod_beta
          lock_events_Update_locked split: sum.splits)
qed
theorem Lock_Unlock_once_witness:
  "lock_events (snd (administrativeUnitMemberResourceCreate notFoundUnitsMeta None ''au1''
                       ''m1'' exampleMemberIdString exampleParseMemberID (exampleTf () [])))
     = [LockByName administrativeUnitResourceName ''au1'',
        UnlockByName administrativeUnitResourceName ''au1'']
   \<and> fst (administrativeUnitMemberResourceCreate notFoundUnitsMeta None ''au1''
            ''m1'' exampleMemberIdString exampleParseMemberID (exampleTf () []))
     = Error ''Adding member to administrative unit: not found''"
proof -
  have "lock_events (exampleTf () [] :: unit units_tf) = []"
    by (simp add: lock_events_def exampleTf_def)
  moreover have "fst (administrativeUnitMemberResourceCreate notFoundUnitsMeta None ''au1''
            ''m1'' exampleMemberIdString exampleParseMemberID (exampleTf () []))
     = Error ''Adding member to administrative unit: not found''"
    by (simp add: administrativeUnitMemberResourceCreate_def
          administrativeUnitMemberResourceCreate_locked_def notFoundUnitsMeta_def
          exampleTf_def invoke_def log_event_def Let_def StatusNotFound_def)
  ultimately show ?thesis
    using Lock_Unlock_once
      [where meta = notFoundUnitsMeta and ctx = None and unitId = "''au1''"
         and memberId = "''m1''" and String = exampleMemberIdString
         and ParseID = exampleParseMemberID and t = "exampleTf () []"
         and client = recordingApplicationsClient
         and ParseApplicationID = exampleParseApplicationID
         and HasChange = exampleHasChange and decode = "Inr exampleApplicationModel"
         and u = "exampleTf freshApplications ''/applications/a1''"]
    by simp
qed

section \<open>The calls of a successful create or delete\<close>


lemma events_SetId [simp]: "events (SetId i t) = events t"
  by (simp add: SetId_def)





section \<open>The existence probe of create\<close>

text \<open>
  C3, as stated, on \<open>Create\<close> of the application registration: no existence probe
  is performed; the first and only remote call is the mutating create call, whose
  payload reaches the remote service.
\<close>

theorem ApplicationRegistration_Create_without_probe:
  "hd (events (snd (ApplicationRegistration_Create recordingApplicationsClient
                      exampleNewApplicationID (Inr exampleApplicationModel)
                      (exampleTf freshApplications []))))
     = Remote Applications_Create
   \<and> Remote Applications_Get
       \<notin> set (events (snd (ApplicationRegistration_Create recordingApplicationsClient
                              exampleNewApplicationID (Inr exampleApplicationModel)
                              (exampleTf freshApplications []))))
   \<and> payloads (remote (snd (ApplicationRegistration_Create recordingApplicationsClient
                              exampleNewApplicationID (Inr exampleApplicationModel)
                              (exampleTf freshApplications []))))
     = [ApplicationRegistration_createProperties exampleApplicationModel]"
  by (simp add: ApplicationRegistration_Create_def recordingApplicationsClient_def
        exampleTf_def freshApplications_def invoke_def pointer_From_def SetId_def)

text \<open>
  C3, amended: \<open>Create\<close> of the administrative unit member takes the lock, fetches
  the administrative unit and then probes for the membership. If the probe finds the
  member, \<open>Create\<close> fails with the import-as-exists condition and issues no mutating
  call; if the probe fails with a status other than 404, or the fetch of the unit
  fails, \<open>Create\<close> returns an error and issues no mutating call. A mutating remote
  call is issued only when the probe reported 404. (\<open>Create\<close> of the application
  registration issues the create call without a probe.)
\<close>

theorem Create_probe_first:
  "units_Get (AdministrativeUnitsClient meta) unitId (remote t) = ((unit, status0, err0), s1)
   \<and> units_GetMember (AdministrativeUnitsClient meta) unitId memberId s1
       = ((member, status, err), s2)
   \<longrightarrow>
     (err0 \<noteq> None \<longrightarrow>
        is_error (fst (administrativeUnitMemberResourceCreate meta ctx unitId memberId String
                         ParseID t))
        \<and> events (snd (administrativeUnitMemberResourceCreate meta ctx unitId memberId String
                          ParseID t))
            = events t @ [LockByName administrativeUnitResourceName unitId,
                          Remote AdministrativeUnits_Get,
                          UnlockByName administrativeUnitResourceName unitId])
     \<and> (err0 = None \<and> err = None \<longrightarrow>
        fst (administrativeUnitMemberResourceCreate meta ctx unitId memberId String ParseID t)
          = ImportAsExists ''azuread_administrative_unit_member''
              (String \<lparr>AdministrativeUnitId = unitId, MemberId = memberId\<rparr>)
        \<and> events (snd (administrativeUnitMemberResourceCreate meta ctx unitId memberId String
                          ParseID t))
            = events t @ [LockByName administrativeUnitResourceName unitId,
                          Remote AdministrativeUnits_Get,
                          Remote AdministrativeUnits_GetMember,
                          UnlockByName administrativeUnitResourceName unitId])
     \<and> (err0 = None \<and> err \<noteq> None \<and> status \<noteq> StatusNotFound \<longrightarrow>
        is_error (fst (administrativeUnitMemberResourceCreate meta ctx unitId memberId String
                         ParseID t))
        \<and> events (snd (administrativeUnitMemberResourceCreate meta ctx unitId memberId String
                          ParseID t))
            = events t @ [LockByName administrativeUnitResourceName unitId,
                          Remote AdministrativeUnits_Get,
                          Remote AdministrativeUnits_GetMember,
                          UnlockByName administrativeUnitResourceName unitId])
     \<and> ((\<exists>c. mutating c
              \<and> Remote c \<in> set (drop (length (events t))
                    (events (snd (administrativeUnitMemberResourceCreate meta ctx unitId
                                    memberId String ParseID t)))))
        \<longrightarrow> err0 = None \<and> err \<noteq> None \<and> status = StatusNotFound)"
proof (intro impI, elim conjE)
  assume g: "units_Get (AdministrativeUnitsClient meta) unitId (remote t)
               = ((unit, status0, err0), s1)"
    and m: "units_GetMember (AdministrativeUnitsClient meta) unitId memberId s1
               = ((member, status, err), s2)"
  let ?C = "administrativeUnitMemberResourceCreate meta ctx unitId memberId String ParseID t"
  have p1: "is_error (fst ?C)
           \<and> events (snd ?C)
               = events t @ [LockByName administrativeUnitResourceName unitId,
                             Remote AdministrativeUnits_Get,
                             UnlockByName administrativeUnitResourceName unitId]"
    if "err0 \<noteq> None"
    using that g
    by (auto simp: administrativeUnitMemberResourceCreate_def
          administrativeUnitMemberResourceCreate_locked_def invoke_def log_event_def Let_def
          is_error_def)
  have p2: "fst ?C = ImportAsExists ''azuread_administrative_unit_member''
                      (String \<lparr>AdministrativeUnitId = unitId, MemberId = memberId\<rparr>)
           \<and> events (snd ?C)
               = events t @ [LockByName administrativeUnitResourceName unitId,
                             Remote AdministrativeUnits_Get,
                             Remote AdministrativeUnits_GetMember,
                             UnlockByName administrativeUnitResourceName unitId]"
    if "err0 = None" "err = None"
    using that g m
    by (simp add: administrativeUnitMemberResourceCreate_def
          administrativeUnitMemberResourceCreate_locked_def invoke_def log_event_def Let_def)
  have p3: "is_error (fst ?C)
           \<and> events (snd ?C)
               = events t @ [LockByName administrativeUnitResourceName unitId,
                             Remote AdministrativeUnits_Get,
                             Remote AdministrativeUnits_GetMember,
                             UnlockByName administrativeUnitResourceName unitId]"
    if "err0 = None" "err \<noteq> None" "status \<noteq> StatusNotFound"
    using that g m
    by (auto simp: administrativeUnitMemberResourceCreate_def
          administrativeUnitMemberResourceCreate_locked_def invoke_def log_event_def Let_def
          is_error_def)
  have p4: "err0 = None \<and> err \<noteq> None \<and> status = StatusNotFound"
    if "\<exists>c. mutating c \<and> Remote c \<in> set (drop (length (events t)) (events (snd ?C)))"
  proof (rule ccontr)
    assume "\<not> (err0 = None \<and> err \<noteq> None \<and> status = StatusNotFound)"
    then consider "err0 \<noteq> None" | "err0 = None" "err = None"
      | "err0 = None" "err \<noteq> None" "status \<noteq> StatusNotFound"
      by auto
    then show False
    proof cases
      case 1
      from p1 [OF 1(1)] that show False by auto
    next
      case 2
      from p2 [OF 2] that show False by auto
    next
      case 3
      from p3 [OF 3] that show False by auto
    qed
  qed
  from p1 p2 p3 p4 show
    "(err0 \<noteq> None \<longrightarrow>
        is_error (fst ?C)
        \<and> events (snd ?C)
            = events t @ [LockByName administrativeUnitResourceName unitId,
                          Remote AdministrativeUnits_Get,
                          UnlockByName administrativeUnitResourceName unitId])
     \<and> (err0 = None \<and> err = None \<longrightarrow>
        fst ?C
          = ImportAsExists ''azuread_administrative_unit_member''
              (String \<lparr>AdministrativeUnitId = unitId, MemberId = memberId\<rparr>)
        \<and> events (snd ?C)
            = events t @ [LockByName administrativeUnitResourceName unitId,
                          Remote AdministrativeUnits_Get,
                          Remote AdministrativeUnits_GetMember,
                          UnlockByName administrativeUnitResourceName unitId])
     \<and> (err0 = None \<and> err \<noteq> None \<and> status \<noteq> StatusNotFound \<longrightarrow>
        is_error (fst ?C)
        \<and> events (snd ?C)
            = events t @ [LockByName administrativeUnitResourceName unitId,
                          Remote AdministrativeUnits_Get,
                          Remote AdministrativeUnits_GetMember,
                          UnlockByName administrativeUnitResourceName unitId])
     \<and> ((\<exists>c. mutating c
              \<and> Remote c \<in> set (drop (length (events t)) (events (snd ?C))))
        \<longrightarrow> err0 = None \<and> err \<noteq> None \<and> status = StatusNotFound)"
    by blast
qed

theorem Create_probe_first_witness:
  "fst (administrativeUnitMemberResourceCreate scriptedUnitsMeta (Some 10) ''au1'' ''m1''
          exampleMemberIdString exampleParseMemberID (exampleTf [present] []))
     = ImportAsExists ''azuread_administrative_unit_member'' ''au1/member/m1''
   \<and> events (snd (administrativeUnitMemberResourceCreate scriptedUnitsMeta (Some 10) ''au1''
                    ''m1'' exampleMemberIdString exampleParseMemberID
                    (exampleTf [present] [])))
     = [LockByName administrativeUnitResourceName ''au1'', Remote AdministrativeUnits_Get,
        Remote AdministrativeUnits_GetMember,
        UnlockByName administrativeUnitResourceName ''au1'']"
  using Create_probe_first
    [where meta = scriptedUnitsMeta and ctx = "Some 10" and unitId = "''au1''"
       and memberId = "''m1''" and String = exampleMemberIdString
       and ParseID = exampleParseMemberID and t = "exampleTf [present] []"
       and unit = "Some \<lparr>unit_ID = Some ''au1''\<rparr>" and ?status0.0 = 200 and ?err0.0 = None
       and ?s1.0 = "[present]" and member = "Some ''member''" and status = 200
       and err = None and ?s2.0 = "[]"]
  by (simp add: scriptedUnitsMeta_def scriptedGetMember_def present_def exampleTf_def
        exampleMemberIdString_def)

section \<open>Hysteresis of the poll after create\<close>

lemma streak_snoc:
  "streak c (xs @ [a]) = (if snd a = None then Suc (streak c xs) else 0)"
  by (induction xs arbitrary: c) simp_all

lemma streak_ge:
  "m \<le> streak 0 xs \<longleftrightarrow>
     m \<le> length xs \<and> (\<forall>a\<in>set (drop (length xs - m) xs). snd a = None)"
proof (induction xs arbitrary: m rule: rev_induct)
  case Nil
  then show ?case by simp
next
  case (snoc a xs)
  show ?case
  proof (cases m)
    case 0
    then show ?thesis by simp
  next
    case (Suc m')
    show ?thesis
    proof (cases "m' \<le> length xs")
      case True
      then have "drop (length (xs @ [a]) - m) (xs @ [a]) = drop (length xs - m') xs @ [a]"
        using Suc by simp
      with snoc [of m'] Suc True show ?thesis
        by (auto simp: streak_snoc)
    next
      case False
      with snoc [of m'] Suc show ?thesis
        by (auto simp: streak_snoc)
    qed
  qed
qed

lemma loop_script:
  fixes t :: "((nat \<times> error option) list, 'm) tf"
  assumes "WaitForState_loop n
             (memberStateChangeConf (AdministrativeUnitsClient scriptedUnitsMeta) rid timeout)
             c t = (None, t')"
    and "c < 3"
  shows "\<exists>k. 1 \<le> k \<and> k \<le> n \<and> k \<le> length (remote t) \<and> remote t' = drop k (remote t)
            \<and> events t' = events t @ replicate k (Remote AdministrativeUnits_GetMember)
            \<and> streak c (take k (remote t)) = 3
            \<and> (\<forall>j<k. streak c (take j (remote t)) < 3)"
  using assms
proof (induction n arbitrary: c t)
  case 0
  then show ?case by simp
next
  case (Suc n)
  let ?conf = "memberStateChangeConf (AdministrativeUnitsClient scriptedUnitsMeta) rid timeout"
  show ?case
  proof (cases "remote t")
    case Nil
    with Suc.prems(1) show ?thesis
      by (simp add: memberStateChangeConf_def memberRefresh_def invoke_def
            scriptedUnitsMeta_def scriptedGetMember_def StatusNotFound_def)
  next
    case (Cons a rest)
    obtain st err where a: "a = (st, err)" by (cases a)
    define t1 where
      "t1 = t\<lparr>remote := rest, events := events t @ [Remote AdministrativeUnits_GetMember]\<rparr>"
    have r1: "remote t1 = rest"
      and e1: "events t1 = events t @ [Remote AdministrativeUnits_GetMember]"
      by (simp_all add: t1_def)
    show ?thesis
    proof (cases err)
      case (Some e)
      show ?thesis
      proof (cases "st = StatusNotFound")
        case True
        with Suc.prems(1) Cons a Some have "WaitForState_loop n ?conf 0 t1 = (None, t')"
          by (simp add: memberStateChangeConf_def memberRefresh_def invoke_def
                scriptedUnitsMeta_def scriptedGetMember_def t1_def)
        from Suc.IH [OF this] obtain k where
          k: "1 \<le> k" "k \<le> n" "k \<le> length rest" "remote t' = drop k rest"
            "events t' = events t1 @ replicate k (Remote AdministrativeUnits_GetMember)"
            "streak 0 (take k rest) = 3" "\<forall>j<k. streak 0 (take j rest) < 3"
          using r1 by auto
        with Cons a Some e1 Suc.prems(2) show ?thesis
          by (intro exI [of _ "Suc k"]) (simp add: All_less_Suc2 replicate_app_Cons_same)
      next
        case False
        with Suc.prems(1) Cons a Some show ?thesis
          by (simp add: memberStateChangeConf_def memberRefresh_def invoke_def
                scriptedUnitsMeta_def scriptedGetMember_def)
      qed
    next
      case None
      show ?thesis
      proof (cases "3 \<le> Suc c")
        case True
        with Suc.prems(1) Cons a None have "t' = t1"
          by (simp add: memberStateChangeConf_def memberRefresh_def invoke_def
                scriptedUnitsMeta_def scriptedGetMember_def t1_def)
        with Cons a None r1 e1 True Suc.prems(2) show ?thesis
          by (intro exI [of _ 1]) simp
      next
        case False
        with Suc.prems(1) Cons a None
        have "WaitForState_loop n ?conf (Suc c) t1 = (None, t')"
          by (simp add: memberStateChangeConf_def memberRefresh_def invoke_def
                scriptedUnitsMeta_def scriptedGetMember_def t1_def)
        moreover from False have "Suc c < 3" by simp
        ultimately obtain k where
          k: "1 \<le> k" "k \<le> n" "k \<le> length rest" "remote t' = drop k rest"
            "events t' = events t1 @ replicate k (Remote AdministrativeUnits_GetMember)"
            "streak (Suc c) (take k rest) = 3" "\<forall>j<k. streak (Suc c) (take j rest) < 3"
          using Suc.IH [of "Suc c" t1] r1 by auto
        with Cons a None e1 Suc.prems(2) show ?thesis
          by (intro exI [of _ "Suc k"]) (simp add: All_less_Suc2 replicate_app_Cons_same)
      qed
    qed
  qed
qed

text \<open>
  C1: the wait for the membership to reflect is configured with three consecutive
  target observations, the target state "Done" and a minimum interval of one second.
  For every scripted sequence of probe answers, when the poll reports success it has
  made \<open>k\<close> probe calls with \<open>k\<close> at least three, the last three answers were
  observations of the member, and no earlier three consecutive answers were: the poll
  succeeds at the first point with three consecutive "Done" observations and not
  before. On the sequence absent, present, absent, present, present, present the poll
  succeeds with the sixth probe call, and a deadline that allows only five calls gives
  a timeout.
\<close>

theorem WaitForStateContext_hysteresis:
  fixes t :: "((nat \<times> error option) list, 'm) tf"
  shows
  "WaitForStateContext
     (memberStateChangeConf (AdministrativeUnitsClient scriptedUnitsMeta) rid timeout) t
     = (None, t')
   \<longrightarrow>
     ContinuousTargetOccurence
       (memberStateChangeConf (AdministrativeUnitsClient scriptedUnitsMeta) rid timeout
          :: ((nat \<times> error option) list, 'm) tf StateChangeConf) = 3
     \<and> MinTimeout
       (memberStateChangeConf (AdministrativeUnitsClient scriptedUnitsMeta) rid timeout
          :: ((nat \<times> error option) list, 'm) tf StateChangeConf) = 1
     \<and> Target
       (memberStateChangeConf (AdministrativeUnitsClient scriptedUnitsMeta) rid timeout
          :: ((nat \<times> error option) list, 'm) tf StateChangeConf) = [''Done'']
     \<and> (\<exists>k. 3 \<le> k \<and> k \<le> length (remote t) \<and> k \<le> timeout
            \<and> remote t' = drop k (remote t)
            \<and> events t' = events t @ replicate k (Remote AdministrativeUnits_GetMember)
            \<and> (\<forall>a\<in>set (take 3 (drop (k - 3) (remote t))). snd a = None)
            \<and> (\<forall>j. 3 \<le> j \<and> j < k \<longrightarrow>
                  (\<exists>a\<in>set (take 3 (drop (j - 3) (remote t))). snd a \<noteq> None)))"
proof (intro impI conjI)
  assume w: "WaitForStateContext
     (memberStateChangeConf (AdministrativeUnitsClient scriptedUnitsMeta) rid timeout) t
     = (None, t')"
  let ?conf = "memberStateChangeConf (AdministrativeUnitsClient scriptedUnitsMeta) rid timeout
                 :: ((nat \<times> error option) list, 'm) tf StateChangeConf"
  show "ContinuousTargetOccurence ?conf = 3" "MinTimeout ?conf = 1" "Target ?conf = [''Done'']"
    by (simp_all add: memberStateChangeConf_def)
  from w have "WaitForState_loop timeout ?conf 0 t = (None, t')"
    by (simp add: WaitForStateContext_def probe_calls_def memberStateChangeConf_def)
  from loop_script [OF this] obtain k where
    k: "1 \<le> k" "k \<le> timeout" "k \<le> length (remote t)" "remote t' = drop k (remote t)"
      "events t' = events t @ replicate k (Remote AdministrativeUnits_GetMember)"
      "streak 0 (take k (remote t)) = 3" "\<forall>j<k. streak 0 (take j (remote t)) < 3"
    by auto
  have len: "length (take k (remote t)) = k"
    using k(3) by simp
  from k(6) have "3 \<le> streak 0 (take k (remote t))" by simp
  then have "3 \<le> length (take k (remote t))
      \<and> (\<forall>a\<in>set (drop (length (take k (remote t)) - 3) (take k (remote t))). snd a = None)"
    using streak_ge [of 3 "take k (remote t)"] by blast
  then have k3: "3 \<le> k"
    and last3: "\<forall>a\<in>set (drop (k - 3) (take k (remote t))). snd a = None"
    unfolding len by blast+
  from k3 have win: "drop (k - 3) (take k (remote t)) = take 3 (drop (k - 3) (remote t))"
    by (simp add: drop_take)
  have before: "\<exists>a\<in>set (take 3 (drop (j - 3) (remote t))). snd a \<noteq> None"
    if j: "3 \<le> j" "j < k" for j
  proof -
    have lenj: "length (take j (remote t)) = j"
      using j k(3) by simp
    from k(7) j have "\<not> 3 \<le> streak 0 (take j (remote t))" by auto
    then have "\<not> (3 \<le> length (take j (remote t))
      \<and> (\<forall>a\<in>set (drop (length (take j (remote t)) - 3) (take j (remote t))).
            snd a = None))"
      using streak_ge [of 3 "take j (remote t)"] by blast
    then have "\<exists>a\<in>set (drop (j - 3) (take j (remote t))). snd a \<noteq> None"
      unfolding lenj using j(1) by blast
    moreover from j have "drop (j - 3) (take j (remote t)) = take 3 (drop (j - 3) (remote t))"
      by (simp add: drop_take)
    ultimately show ?thesis by simp
  qed
  from k3 k last3 win before
  show "\<exists>k. 3 \<le> k \<and> k \<le> length (remote t) \<and> k \<le> timeout
            \<and> remote t' = drop k (remote t)
            \<and> events t' = events t @ replicate k (Remote AdministrativeUnits_GetMember)
            \<and> (\<forall>a\<in>set (take 3 (drop (k - 3) (remote t))). snd a = None)
            \<and> (\<forall>j. 3 \<le> j \<and> j < k \<longrightarrow>
                  (\<exists>a\<in>set (take 3 (drop (j - 3) (remote t))). snd a \<noteq> None))"
    by (intro exI [of _ k]) auto
qed

theorem WaitForStateContext_hysteresis_witness:
  "fst (WaitForStateContext
          (memberStateChangeConf (AdministrativeUnitsClient scriptedUnitsMeta)
             exampleMemberId 10)
          (exampleTf flipScript [] :: ((nat \<times> error option) list, unit) tf)) = None
   \<and> events (snd (WaitForStateContext
          (memberStateChangeConf (AdministrativeUnitsClient scriptedUnitsMeta)
             exampleMemberId 10)
          (exampleTf flipScript [] :: ((nat \<times> error option) list, unit) tf)))
      = replicate 6 (Remote AdministrativeUnits_GetMember)
   \<and> fst (WaitForStateContext
          (memberStateChangeConf (AdministrativeUnitsClient scriptedUnitsMeta)
             exampleMemberId 5)
          (exampleTf flipScript [] :: ((nat \<times> error option) list, unit) tf))
      = Some TimeoutError
   \<and> (\<exists>k. 3 \<le> k \<and> k \<le> length flipScript
          \<and> remote (snd (WaitForStateContext
               (memberStateChangeConf (AdministrativeUnitsClient scriptedUnitsMeta)
                  exampleMemberId 10)
               (exampleTf flipScript [] :: ((nat \<times> error option) list, unit) tf)))
             = drop k flipScript)"
proof -
  let ?w = "WaitForStateContext
              (memberStateChangeConf (AdministrativeUnitsClient scriptedUnitsMeta)
                 exampleMemberId 10)
              (exampleTf flipScript [] :: ((nat \<times> error option) list, unit) tf)"
  have f: "fst ?w = None"
    by code_simp
  have e: "events (snd ?w) = replicate 6 (Remote AdministrativeUnits_GetMember)"
    by code_simp
  have five: "fst (WaitForStateContext
          (memberStateChangeConf (AdministrativeUnitsClient scriptedUnitsMeta)
             exampleMemberId 5)
          (exampleTf flipScript [] :: ((nat \<times> error option) list, unit) tf))
      = Some TimeoutError"
    by code_simp
  from f have "?w = (None, snd ?w)"
    by (simp add: prod_eq_iff)
  from WaitForStateContext_hysteresis
         [where rid = exampleMemberId and timeout = 10
            and t = "exampleTf flipScript [] :: ((nat \<times> error option) list, unit) tf"
            and t' = "snd ?w"] this
  have "\<exists>k. 3 \<le> k \<and> k \<le> length flipScript \<and> remote (snd ?w) = drop k flipScript"
    by (auto simp: exampleTf_def)
  with f e five show ?thesis by simp
qed

section \<open>Create against the scripted service\<close>



section \<open>Polling after create and delete\<close>



section \<open>State upgrade v1 to v2: results\<close>

text \<open>
  C10, as stated, at a raw state whose \<open>id\<close> is a number: the value is not a
  parseable UUID, yet the upgrade does not return an error, it panics on the type
  assertion.
\<close>

theorem StateUpgradeV1_nonstring_id_panics:
  "ResourceApplicationInstanceStateUpgradeV1 exampleParseUUID exampleNewApplicationID
     [''id'' \<mapsto> VNumber 5] = None"
  by (simp add: ResourceApplicationInstanceStateUpgradeV1_def)

text \<open>
  C10, amended: for every raw state map whose \<open>id\<close> entry is a string, the upgrade
  returns, with an error exactly when that string is not a parseable UUID (the state
  is then returned as it was); when it parses, \<open>id\<close> is replaced by the v2
  identifier derived from the old one and every other key is unchanged.
\<close>

theorem StateUpgradeV1_string_id:
  assumes "rawState ''id'' = Some (VString oldId)"
  shows "\<exists>m err. ResourceApplicationInstanceStateUpgradeV1 ParseUUID NewApplicationID rawState
                    = Some (m, err)
           \<and> (err \<noteq> None \<longleftrightarrow> ParseUUID oldId \<noteq> None)
           \<and> (ParseUUID oldId \<noteq> None \<longrightarrow> m = rawState)
           \<and> (ParseUUID oldId = None \<longrightarrow>
                m ''id'' = Some (VString (NewApplicationID oldId))
                \<and> (\<forall>k. k \<noteq> ''id'' \<longrightarrow> m k = rawState k))"
  using assms
  by (cases "ParseUUID oldId") (simp_all add: ResourceApplicationInstanceStateUpgradeV1_def)


theorem StateUpgradeV1_string_id_witness:
  "exampleStateV1 ''id'' = Some (VString ''00000000-0000-0000-0000-000000000000'')
   \<and> ResourceApplicationInstanceStateUpgradeV1 exampleParseUUID exampleNewApplicationID
        exampleStateV1
      = Some (exampleStateV1(''id'' \<mapsto>
                VString ''/applications/00000000-0000-0000-0000-000000000000''), None)"
proof -
  have h: "exampleStateV1 ''id'' = Some (VString ''00000000-0000-0000-0000-000000000000'')"
    by (simp add: exampleStateV1_def)
  have p: "exampleParseUUID ''00000000-0000-0000-0000-000000000000'' = None"
    by code_simp
  note t = StateUpgradeV1_string_id [where rawState = exampleStateV1
        and oldId = "''00000000-0000-0000-0000-000000000000''"
        and ParseUUID = exampleParseUUID and NewApplicationID = exampleNewApplicationID, OF h]
  from t p obtain m where
    r: "ResourceApplicationInstanceStateUpgradeV1 exampleParseUUID exampleNewApplicationID
          exampleStateV1 = Some (m, None)"
     and m1: "m ''id'' = Some (VString (exampleNewApplicationID ''00000000-0000-0000-0000-000000000000''))"
     and m2: "\<forall>k. k \<noteq> ''id'' \<longrightarrow> m k = exampleStateV1 k"
    by auto
  have "m = exampleStateV1(''id'' \<mapsto>
                VString ''/applications/00000000-0000-0000-0000-000000000000'')"
    using m1 m2 by (auto simp: exampleNewApplicationID_def)
  with r h show ?thesis by simp
qed


end
